theory Spec2Isabelle
  imports Complex_Main "HOL-Library.Word" "HOL-Library.AList" "HOL-Library.Multiset"
begin

unbundle bit_operations_syntax

section \<open>Data model\<close>

text \<open>
  JavaScript numbers that hold pixel counts, packed colours, sizes and indices are
  modelled as natural numbers; the numbers that hold Lab coordinates, priorities and
  distances are modelled as real numbers, without the rounding of IEEE doubles; only
  the second model of the ranker, further down, takes the arithmetic as a parameter.
  A JavaScript \<open>Map\<close> with numeric keys is an association list in insertion order with
  distinct keys: \<open>map_of\<close> is \<open>get\<close>, \<open>AList.update\<close> is \<open>set\<close>, \<open>length\<close> is
  \<open>size\<close>.
\<close>

datatype error = InvalidDataLength nat nat | TypeError

record ImageData =
  width :: nat
  height :: nat
  data :: "8 word list"

record PaletteEntry =
  color :: nat
  count :: nat

record LabColor =
  lab_L :: real
  lab_a :: real
  lab_b :: real

record Palette =
  colors :: "(nat \<times> nat) list"

text \<open>The options after the constructor has merged them with \<open>DEFAULT_OPTIONS\<close>.\<close>

record ExtractorOptions =
  useCache :: bool
  maxCacheSize :: int
  batchSize :: nat

record ColorExtractor =
  palette :: Palette
  sortedColors :: "nat list option"
  labCache :: "(nat \<times> LabColor) list"
  options :: ExtractorOptions

text \<open>
  The local variables of one merge pass. The keys of \<open>spatialGrid\<close> are the strings
  \<open>lKey,aKey,bKey\<close> of three integers, which determine the three integers; the model
  keeps the triple.
\<close>

record MergeState =
  result :: "nat list"
  labColors :: "LabColor list"
  spatialGrid :: "int \<times> int \<times> int \<rightharpoonup> nat list"

section \<open>Array.prototype.sort\<close>

text \<open>
  \<open>Array.prototype.sort\<close> is a stable sort by a comparator \<open>cmp\<close>: \<open>x\<close> stays before
  \<open>y\<close> unless \<open>cmp x y > 0\<close>. For a consistent comparator the result of a stable sort is
  unique, so the insertion sort below computes it.
\<close>

fun Array_insert :: "('a \<Rightarrow> 'a \<Rightarrow> 'o::linordered_idom) \<Rightarrow> 'a \<Rightarrow> 'a list \<Rightarrow> 'a list" where
  "Array_insert cmp x [] = [x]"
| "Array_insert cmp x (y # ys) =
     (if cmp x y \<le> 0 then x # y # ys else y # Array_insert cmp x ys)"

definition Array_sort :: "('a \<Rightarrow> 'a \<Rightarrow> 'o::linordered_idom) \<Rightarrow> 'a list \<Rightarrow> 'a list" where
  "Array_sort cmp xs = foldr (Array_insert cmp) xs []"

section \<open>ImageDecoder\<close>

definition RGBA_CHANNELS :: nat where
  "RGBA_CHANNELS = 4"

definition fromRawData :: "nat \<Rightarrow> nat \<Rightarrow> 8 word list \<Rightarrow> error + ImageData" where
  "fromRawData w h d =
     (let expectedLength = w * h * RGBA_CHANNELS
      in if length d \<noteq> expectedLength
         then Inl (InvalidDataLength expectedLength (length d))
         else Inr \<lparr>width = w, height = h, data = d\<rparr>)"

section \<open>Palette\<close>

definition palette_length :: "Palette \<Rightarrow> nat" where
  "palette_length p = length (colors p)"

text \<open>
  \<open>limit?: number\<close> is an optional argument, \<open>None\<close> when it is left out. The test
  \<open>limit ? .. : ..\<close> is on its truthiness: \<open>undefined\<close> and \<open>0\<close> are both falsy.
\<close>

definition getMostUsedColors :: "Palette \<Rightarrow> nat option \<Rightarrow> PaletteEntry list" where
  "getMostUsedColors p limit =
     (let entries = map (\<lambda>(c, n). \<lparr>color = c, count = n\<rparr>) (colors p);
          entries = Array_sort (\<lambda>a b. int (count b) - int (count a)) entries
      in case limit of
           None \<Rightarrow> entries
         | Some n \<Rightarrow> if n \<noteq> 0 then take n entries else entries)"

text \<open>
  The palette's iterator yields the entries sorted by count, descending (the revision
  of \<open>Palette.ts\<close> with \<open>getColorCount\<close> and \<open>hasColor\<close>; the other revision yields
  them in insertion order, which is \<open>colors p\<close> itself).
\<close>

definition iterator :: "Palette \<Rightarrow> (nat \<times> nat) list" where
  "iterator p = Array_sort (\<lambda>a b. int (snd b) - int (snd a)) (colors p)"

section \<open>ColorExtractor: colour conversion\<close>

definition RGB_MAX :: nat where
  "RGB_MAX = 255"

definition SRGB_THRESHOLD :: real where
  "SRGB_THRESHOLD = 0.03928"

definition SRGB_FACTOR :: real where
  "SRGB_FACTOR = 12.92"

definition WHITE_POINT_X :: real where
  "WHITE_POINT_X = 0.95047"

definition WHITE_POINT_Y :: real where
  "WHITE_POINT_Y = 1"

definition WHITE_POINT_Z :: real where
  "WHITE_POINT_Z = 1.08883"

definition XYZ_THRESHOLD :: real where
  "XYZ_THRESHOLD = 216 / 24389"

definition XYZ_FACTOR :: real where
  "XYZ_FACTOR = 841 / 108"

definition XYZ_OFFSET :: real where
  "XYZ_OFFSET = 4 / 29"

definition MATRIX_X :: "real list" where
  "MATRIX_X = [0.4124564, 0.3575761, 0.1804375]"

definition MATRIX_Y :: "real list" where
  "MATRIX_Y = [0.2126729, 0.7151522, 0.0721750]"

definition MATRIX_Z :: "real list" where
  "MATRIX_Z = [0.0193339, 0.1191920, 0.9503041]"

definition DEFAULT_OPTIONS :: ExtractorOptions where
  "DEFAULT_OPTIONS = \<lparr>useCache = True, maxCacheSize = 10000, batchSize = 1000\<rparr>"

definition rgbToSrgb :: "real \<Rightarrow> real" where
  "rgbToSrgb v =
     (if v \<le> SRGB_THRESHOLD then v / SRGB_FACTOR else ((v + 0.055) / 1.055) powr 2.4)"

definition xyzToLabStep :: "real \<Rightarrow> real" where
  "xyzToLabStep v =
     (if v > XYZ_THRESHOLD then v powr (1 / 3) else XYZ_FACTOR * v + XYZ_OFFSET)"

definition xyzToLab :: "real \<Rightarrow> real \<Rightarrow> real \<Rightarrow> LabColor" where
  "xyzToLab x y z =
     (let fx = xyzToLabStep (x / WHITE_POINT_X);
          fy = xyzToLabStep (y / WHITE_POINT_Y);
          fz = xyzToLabStep (z / WHITE_POINT_Z)
      in \<lparr>lab_L = 116 * fy - 16, lab_a = 500 * (fx - fy), lab_b = 200 * (fy - fz)\<rparr>)"

definition convertToLab :: "nat \<Rightarrow> LabColor" where
  "convertToLab c =
     (let r = drop_bit 16 c AND RGB_MAX;
          g = drop_bit 8 c AND RGB_MAX;
          b = c AND RGB_MAX;
          sR = rgbToSrgb (real r / real RGB_MAX);
          sG = rgbToSrgb (real g / real RGB_MAX);
          sB = rgbToSrgb (real b / real RGB_MAX);
          x = MATRIX_X ! 0 * sR + MATRIX_X ! 1 * sG + MATRIX_X ! 2 * sB;
          y = MATRIX_Y ! 0 * sR + MATRIX_Y ! 1 * sG + MATRIX_Y ! 2 * sB;
          z = MATRIX_Z ! 0 * sR + MATRIX_Z ! 1 * sG + MATRIX_Z ! 2 * sB
      in xyzToLab x y z)"

text \<open>
  The pipeline of the specification's section 4.1, step by step, for comparison with
  \<open>convertToLab\<close>.
\<close>

definition unpack_reference :: "nat \<Rightarrow> real \<times> real \<times> real" where
  "unpack_reference c =
     (real (c div 65536) / 255, real (c div 256 mod 256) / 255, real (c mod 256) / 255)"

definition transfer_reference :: "real \<Rightarrow> real" where
  "transfer_reference v = (if v \<le> 0.03928 then v / 12.92 else ((v + 0.055) / 1.055) powr 2.4)"

definition nonlinearity_reference :: "real \<Rightarrow> real" where
  "nonlinearity_reference t = (if t > 216 / 24389 then t powr (1 / 3) else (841 / 108) * t + 4 / 29)"

definition toLab_reference :: "nat \<Rightarrow> LabColor" where
  "toLab_reference c =
     (case unpack_reference c of (r, g, b) \<Rightarrow>
        let R = transfer_reference r; G = transfer_reference g; B = transfer_reference b;
            X = 0.4124564 * R + 0.3575761 * G + 0.1804375 * B;
            Y = 0.2126729 * R + 0.7151522 * G + 0.0721750 * B;
            Z = 0.0193339 * R + 0.1191920 * G + 0.9503041 * B;
            fx = nonlinearity_reference (X / 0.95047);
            fy = nonlinearity_reference (Y / 1);
            fz = nonlinearity_reference (Z / 1.08883)
        in \<lparr>lab_L = 116 * fy - 16, lab_a = 500 * (fx - fy), lab_b = 200 * (fy - fz)\<rparr>)"

section \<open>ColorExtractor: the conversion cache\<close>

definition ColorExtractor_new :: "Palette \<Rightarrow> ExtractorOptions \<Rightarrow> ColorExtractor" where
  "ColorExtractor_new p opts =
     \<lparr>palette = p, sortedColors = None, labCache = [], options = opts\<rparr>"

definition getLabColor :: "ColorExtractor \<Rightarrow> nat \<Rightarrow> LabColor \<times> ColorExtractor" where
  "getLabColor this c =
     (if \<not> useCache (options this) then (convertToLab c, this)
      else case map_of (labCache this) c of
             Some labColor \<Rightarrow> (labColor, this)
           | None \<Rightarrow>
               let cache = (if int (length (labCache this)) \<ge> maxCacheSize (options this)
                            then [] else labCache this);
                   labColor = convertToLab c
               in (labColor, this\<lparr>labCache := AList.update c labColor cache\<rparr>))"

definition clearCache :: "ColorExtractor \<Rightarrow> ColorExtractor" where
  "clearCache this = this\<lparr>labCache := [], sortedColors := None\<rparr>"

section \<open>ColorExtractor: the ranking\<close>

text \<open>
  The loop of \<open>initialize\<close> over the entries. A priority record is the pair of the
  colour and its priority. \<open>x || 1\<close> replaces a zero by one. The \<open>await\<close> after every
  \<open>batchSize\<close> entries only yields to the scheduler and is left out. The arithmetic
  here is exact; the order that the ranking has under rounding is the subject of the
  second model of the ranker below, which takes the arithmetic as a parameter.
\<close>

fun priorities_loop ::
  "ColorExtractor \<Rightarrow> (nat \<times> nat) list \<Rightarrow> (nat \<times> real) list \<times> ColorExtractor" where
  "priorities_loop this [] = ([], this)"
| "priorities_loop this ((c, n) # entries) =
     (let (labColor, this1) = getLabColor this c;
          chroma = sqrt (lab_a labColor * lab_a labColor + lab_b labColor * lab_b labColor);
          chromaDistance = (if chroma = 0 then 1 else chroma);
          lightnessWeight = 1 - lab_L labColor * 0.005;
          frequencyWeight = sqrt (real n);
          (priorities, this2) = priorities_loop this1 entries
      in ((c, chromaDistance * lightnessWeight * frequencyWeight) # priorities, this2))"

definition initialize :: "ColorExtractor \<Rightarrow> ColorExtractor" where
  "initialize this =
     (let entries = iterator (palette this)
      in if length entries = 0 then this\<lparr>sortedColors := Some []\<rparr>
         else let (priorities, this1) = priorities_loop this entries;
                  priorities = Array_sort (\<lambda>x y. snd y - snd x) priorities
              in this1\<lparr>sortedColors := Some (map fst priorities)\<rparr>)"

section \<open>ColorExtractor: the merge pass\<close>

definition calculateDeltaE :: "LabColor \<Rightarrow> LabColor \<Rightarrow> real" where
  "calculateDeltaE lab1 lab2 =
     (let deltaL = lab_L lab2 - lab_L lab1;
          deltaA = lab_a lab2 - lab_a lab1;
          deltaB = lab_b lab2 - lab_b lab1
      in if \<bar>deltaL\<bar> > 50 then 100
         else sqrt (deltaL * deltaL + deltaA * deltaA + deltaB * deltaB))"

definition getGridKey :: "LabColor \<Rightarrow> real \<Rightarrow> int \<times> int \<times> int" where
  "getGridKey labColor gridSize =
     (let lKey = \<lfloor>lab_L labColor / gridSize\<rfloor>;
          aKey = \<lfloor>(lab_a labColor + 128) / gridSize\<rfloor>;
          bKey = \<lfloor>(lab_b labColor + 128) / gridSize\<rfloor>
      in (lKey, aKey, bKey))"

text \<open>
  The inner loop over \<open>nearbyIndices\<close>, with the distance function as a parameter
  (\<open>calculateDeltaE\<close> in the source). Reading \<open>labColors[nearbyIndex]\<close> out of range gives
  \<open>undefined\<close>, whose field \<open>L\<close> the distance function then reads: a \<open>TypeError\<close>.
\<close>

fun isMerged ::
  "(LabColor \<Rightarrow> LabColor \<Rightarrow> real) \<Rightarrow> LabColor \<Rightarrow> LabColor list \<Rightarrow> real \<Rightarrow> nat list \<Rightarrow> error + bool" where
  "isMerged deltaE colorLab labs maxDelta [] = Inr False"
| "isMerged deltaE colorLab labs maxDelta (nearbyIndex # nearbyIndices) =
     (if nearbyIndex < length labs
      then (if deltaE colorLab (labs ! nearbyIndex) < maxDelta then Inr True
            else isMerged deltaE colorLab labs maxDelta nearbyIndices)
      else Inl TypeError)"

definition gridSize :: real where
  "gridSize = 20"

definition accept :: "MergeState \<Rightarrow> nat \<Rightarrow> LabColor \<Rightarrow> int \<times> int \<times> int \<Rightarrow> MergeState" where
  "accept st c colorLab gridKey =
     (let resultIndex = length (result st);
          grid = (case spatialGrid st gridKey of
                    None \<Rightarrow> (spatialGrid st)(gridKey \<mapsto> [])
                  | Some _ \<Rightarrow> spatialGrid st);
          bucket = (case grid gridKey of None \<Rightarrow> [] | Some is \<Rightarrow> is)
      in \<lparr>result = result st @ [c],
          labColors = labColors st @ [colorLab],
          spatialGrid = grid(gridKey \<mapsto> bucket @ [resultIndex])\<rparr>)"

text \<open>The body of the outer loop for one candidate colour, after the test of the limit.\<close>

definition mergeStep ::
  "(LabColor \<Rightarrow> LabColor \<Rightarrow> real) \<Rightarrow> real \<Rightarrow> nat \<Rightarrow> MergeState \<Rightarrow> ColorExtractor
     \<Rightarrow> (error + MergeState) \<times> ColorExtractor" where
  "mergeStep deltaE maxDelta c st this =
     (let (colorLab, this1) = getLabColor this c;
          gridKey = getGridKey colorLab gridSize;
          nearbyIndices = (case spatialGrid st gridKey of None \<Rightarrow> [] | Some is \<Rightarrow> is)
      in case isMerged deltaE colorLab (labColors st) maxDelta nearbyIndices of
           Inl e \<Rightarrow> (Inl e, this1)
         | Inr merged \<Rightarrow>
             (Inr (if \<not> merged then accept st c colorLab gridKey else st), this1))"

fun mergeLoop ::
  "(LabColor \<Rightarrow> LabColor \<Rightarrow> real) \<Rightarrow> nat \<Rightarrow> real \<Rightarrow> nat list \<Rightarrow> MergeState \<Rightarrow> ColorExtractor
     \<Rightarrow> (error + nat list) \<times> ColorExtractor" where
  "mergeLoop deltaE actualLimit maxDelta [] st this = (Inr (result st), this)"
| "mergeLoop deltaE actualLimit maxDelta (c # cs) st this =
     (if length (result st) \<ge> actualLimit then (Inr (result st), this)
      else case mergeStep deltaE maxDelta c st this of
             (Inl e, this1) \<Rightarrow> (Inl e, this1)
           | (Inr st1, this1) \<Rightarrow> mergeLoop deltaE actualLimit maxDelta cs st1 this1)"

definition initial_state :: MergeState where
  "initial_state = \<lparr>result = [], labColors = [], spatialGrid = Map.empty\<rparr>"

definition mergeColorsWith ::
  "(LabColor \<Rightarrow> LabColor \<Rightarrow> real) \<Rightarrow> ColorExtractor \<Rightarrow> nat list \<Rightarrow> nat \<Rightarrow> real
     \<Rightarrow> (error + nat list) \<times> ColorExtractor" where
  "mergeColorsWith deltaE this cs limit maxDelta =
     (let actualLimit = min (length cs) limit
      in if actualLimit \<le> 1 then (Inr (take actualLimit cs), this)
         else mergeLoop deltaE actualLimit maxDelta cs initial_state this)"

definition mergeColors ::
  "ColorExtractor \<Rightarrow> nat list \<Rightarrow> nat \<Rightarrow> real \<Rightarrow> (error + nat list) \<times> ColorExtractor" where
  "mergeColors = mergeColorsWith calculateDeltaE"

text \<open>
  \<open>extract\<close>: \<open>!this.sortedColors\<close> holds for \<open>null\<close> only (an empty array is truthy);
  \<open>this.sortedColors!\<close> is unchecked, so a \<open>null\<close> there would fail in \<open>mergeColors\<close> at
  \<open>colors.length\<close>.
\<close>

definition "extract" :: "nat \<Rightarrow> ColorExtractor \<Rightarrow> (error + nat list) \<times> ColorExtractor" where
  "extract colorCount this =
     (if colorCount = 0 then (Inr [], this)
      else let this1 = (if sortedColors this = None then initialize this else this)
           in case sortedColors this1 of
                None \<Rightarrow> (Inl TypeError, this1)
              | Some cs \<Rightarrow> mergeColors this1 cs colorCount (100 / real colorCount))"

section \<open>Calls on one instance\<close>

text \<open>A caller's history on one extractor: calls of \<open>extract\<close> and of \<open>clearCache\<close>.\<close>

datatype call = Extract nat | ClearCache

fun run :: "call list \<Rightarrow> ColorExtractor \<Rightarrow> ColorExtractor" where
  "run [] this = this"
| "run (Extract colorCount # calls) this = run calls (snd (extract colorCount this))"
| "run (ClearCache # calls) this = run calls (clearCache this)"

section \<open>ColorExtractor: the ranking in the host's arithmetic\<close>

text \<open>
  The order of the ranking depends on how the priorities round: two priorities that
  are close as real numbers can compare the other way as doubles. For the ranking,
  therefore, the conversion and the loop of \<open>initialize\<close> are written a second time with
  the arithmetic of JavaScript numbers as a parameter. A number is the real number it
  denotes; \<open>fl_add\<close>, \<open>fl_sub\<close>, \<open>fl_mul\<close> and \<open>fl_div\<close> are \<open>+\<close>, \<open>-\<close>, \<open>*\<close> and \<open>/\<close>,
  \<open>fl_pow\<close> is \<open>Math.pow\<close>, \<open>fl_sqrt\<close> is \<open>Math.sqrt\<close>, and \<open>fl_lit\<close> gives the number
  that a decimal literal of the source denotes (integer literals denote themselves).
  Comparisons of numbers are exact. Every operation of lines 130 to 168 and 56 to 72
  of \<open>ColorExtractor.ts\<close> goes through the parameter, in the order in which the source
  applies it. On a colour no operation yields \<open>NaN\<close> or an infinity (both bases of
  \<open>Math.pow\<close> are positive), so every number is a real number.
\<close>

record Arithmetic =
  fl_lit :: "real \<Rightarrow> real"
  fl_add :: "real \<Rightarrow> real \<Rightarrow> real"
  fl_sub :: "real \<Rightarrow> real \<Rightarrow> real"
  fl_mul :: "real \<Rightarrow> real \<Rightarrow> real"
  fl_div :: "real \<Rightarrow> real \<Rightarrow> real"
  fl_pow :: "real \<Rightarrow> real \<Rightarrow> real"
  fl_sqrt :: "real \<Rightarrow> real"

text \<open>The arithmetic without rounding, which the rest of the model uses.\<close>

definition exact_arithmetic :: Arithmetic where
  "exact_arithmetic =
     \<lparr>fl_lit = (\<lambda>x. x), fl_add = (+), fl_sub = (-), fl_mul = (*), fl_div = (/),
      fl_pow = (powr), fl_sqrt = sqrt\<rparr>"

definition rgbToSrgb_fl :: "Arithmetic \<Rightarrow> real \<Rightarrow> real" where
  "rgbToSrgb_fl ar v =
     (if v \<le> fl_lit ar SRGB_THRESHOLD then fl_div ar v (fl_lit ar SRGB_FACTOR)
      else fl_pow ar (fl_div ar (fl_add ar v (fl_lit ar 0.055)) (fl_lit ar 1.055))
             (fl_lit ar 2.4))"

definition xyzToLabStep_fl :: "Arithmetic \<Rightarrow> real \<Rightarrow> real" where
  "xyzToLabStep_fl ar v =
     (if v > fl_div ar 216 24389 then fl_pow ar v (fl_div ar 1 3)
      else fl_add ar (fl_mul ar (fl_div ar 841 108) v) (fl_div ar 4 29))"

definition xyzToLab_fl :: "Arithmetic \<Rightarrow> real \<Rightarrow> real \<Rightarrow> real \<Rightarrow> LabColor" where
  "xyzToLab_fl ar x y z =
     (let fx = xyzToLabStep_fl ar (fl_div ar x (fl_lit ar WHITE_POINT_X));
          fy = xyzToLabStep_fl ar (fl_div ar y WHITE_POINT_Y);
          fz = xyzToLabStep_fl ar (fl_div ar z (fl_lit ar WHITE_POINT_Z))
      in \<lparr>lab_L = fl_sub ar (fl_mul ar 116 fy) 16,
          lab_a = fl_mul ar 500 (fl_sub ar fx fy),
          lab_b = fl_mul ar 200 (fl_sub ar fy fz)\<rparr>)"

definition convertToLab_fl :: "Arithmetic \<Rightarrow> nat \<Rightarrow> LabColor" where
  "convertToLab_fl ar c =
     (let r = drop_bit 16 c AND RGB_MAX;
          g = drop_bit 8 c AND RGB_MAX;
          b = c AND RGB_MAX;
          sR = rgbToSrgb_fl ar (fl_div ar (real r) (real RGB_MAX));
          sG = rgbToSrgb_fl ar (fl_div ar (real g) (real RGB_MAX));
          sB = rgbToSrgb_fl ar (fl_div ar (real b) (real RGB_MAX));
          x = fl_add ar
                (fl_add ar (fl_mul ar (fl_lit ar (MATRIX_X ! 0)) sR)
                           (fl_mul ar (fl_lit ar (MATRIX_X ! 1)) sG))
                (fl_mul ar (fl_lit ar (MATRIX_X ! 2)) sB);
          y = fl_add ar
                (fl_add ar (fl_mul ar (fl_lit ar (MATRIX_Y ! 0)) sR)
                           (fl_mul ar (fl_lit ar (MATRIX_Y ! 1)) sG))
                (fl_mul ar (fl_lit ar (MATRIX_Y ! 2)) sB);
          z = fl_add ar
                (fl_add ar (fl_mul ar (fl_lit ar (MATRIX_Z ! 0)) sR)
                           (fl_mul ar (fl_lit ar (MATRIX_Z ! 1)) sG))
                (fl_mul ar (fl_lit ar (MATRIX_Z ! 2)) sB)
      in xyzToLab_fl ar x y z)"

definition getLabColor_fl ::
  "Arithmetic \<Rightarrow> ColorExtractor \<Rightarrow> nat \<Rightarrow> LabColor \<times> ColorExtractor" where
  "getLabColor_fl ar this c =
     (if \<not> useCache (options this) then (convertToLab_fl ar c, this)
      else case map_of (labCache this) c of
             Some labColor \<Rightarrow> (labColor, this)
           | None \<Rightarrow>
               let cache = (if int (length (labCache this)) \<ge> maxCacheSize (options this)
                            then [] else labCache this);
                   labColor = convertToLab_fl ar c
               in (labColor, this\<lparr>labCache := AList.update c labColor cache\<rparr>))"

fun priorities_loop_fl ::
  "Arithmetic \<Rightarrow> ColorExtractor \<Rightarrow> (nat \<times> nat) list
     \<Rightarrow> (nat \<times> real) list \<times> ColorExtractor" where
  "priorities_loop_fl ar this [] = ([], this)"
| "priorities_loop_fl ar this ((c, n) # entries) =
     (let (labColor, this1) = getLabColor_fl ar this c;
          chroma = fl_sqrt ar (fl_add ar (fl_mul ar (lab_a labColor) (lab_a labColor))
                                         (fl_mul ar (lab_b labColor) (lab_b labColor)));
          chromaDistance = (if chroma = 0 then 1 else chroma);
          lightnessWeight = fl_sub ar 1 (fl_mul ar (lab_L labColor) (fl_lit ar 0.005));
          frequencyWeight = fl_sqrt ar (real n);
          (priorities, this2) = priorities_loop_fl ar this1 entries
      in ((c, fl_mul ar (fl_mul ar chromaDistance lightnessWeight) frequencyWeight)
            # priorities, this2))"

definition initialize_fl :: "Arithmetic \<Rightarrow> ColorExtractor \<Rightarrow> ColorExtractor" where
  "initialize_fl ar this =
     (let entries = iterator (palette this)
      in if length entries = 0 then this\<lparr>sortedColors := Some []\<rparr>
         else let (priorities, this1) = priorities_loop_fl ar this entries;
                  priorities = Array_sort (\<lambda>x y. fl_sub ar (snd y) (snd x)) priorities
              in this1\<lparr>sortedColors := Some (map fst priorities)\<rparr>)"

text \<open>
  The priority of section 4.2 in a given arithmetic: the chroma, with one in place of a
  chroma of exactly zero, times the lightness weight, times the square root of the
  count.
\<close>

definition priority_fl :: "Arithmetic \<Rightarrow> nat \<Rightarrow> nat \<Rightarrow> real" where
  "priority_fl ar c n =
     (let lab = convertToLab_fl ar c;
          chroma = fl_sqrt ar (fl_add ar (fl_mul ar (lab_a lab) (lab_a lab))
                                         (fl_mul ar (lab_b lab) (lab_b lab)));
          chroma' = (if chroma = 0 then 1 else chroma)
      in fl_mul ar (fl_mul ar chroma' (fl_sub ar 1 (fl_mul ar (lab_L lab) (fl_lit ar 0.005))))
           (fl_sqrt ar (real n)))"

text \<open>Every cached entry holds the conversion of its key in the given arithmetic.\<close>

definition cache_ok_fl :: "Arithmetic \<Rightarrow> ColorExtractor \<Rightarrow> bool" where
  "cache_ok_fl ar this =
     (\<forall>(c, labColor) \<in> set (labCache this). labColor = convertToLab_fl ar c)"

text \<open>
  The comparator \<open>b.priority - a.priority\<close> has the sign of the exact difference on the
  given priorities. IEEE subtraction has it on all finite doubles: the difference of
  two distinct doubles does not round to zero, and rounding keeps the sign.
\<close>

definition comparator_exact :: "Arithmetic \<Rightarrow> real list \<Rightarrow> bool" where
  "comparator_exact ar ps \<longleftrightarrow> (\<forall>x \<in> set ps. \<forall>y \<in> set ps. fl_sub ar y x \<le> 0 \<longleftrightarrow> y \<le> x)"

section \<open>The specification's reading of ranking and selection\<close>

text \<open>
  The priority of section 4.2: the chroma, with one in place of a chroma of exactly zero,
  times the lightness weight, times the square root of the count.
\<close>

definition priority_reference :: "nat \<Rightarrow> nat \<Rightarrow> real" where
  "priority_reference c n =
     (let lab = convertToLab c;
          chroma = sqrt ((lab_a lab)\<^sup>2 + (lab_b lab)\<^sup>2)
      in (if chroma = 0 then 1 else chroma) * (1 - lab_L lab * 0.005) * sqrt (real n))"

text \<open>The ranking of section 4.2: the iterated entries in a stable sort by descending priority.\<close>

definition ranking :: "Palette \<Rightarrow> nat list" where
  "ranking p = map fst (sort_key (\<lambda>e. - priority_reference (fst e) (snd e)) (iterator p))"

text \<open>
  The selection of section 4.3, on colours alone: a candidate is dropped when an accepted
  colour of the same grid bucket is at a distance below \<open>maxDelta\<close>, and accepted
  otherwise, until the limit is reached.
\<close>

definition same_bucket :: "nat \<Rightarrow> nat \<Rightarrow> bool" where
  "same_bucket c1 c2 =
     (getGridKey (convertToLab c1) gridSize = getGridKey (convertToLab c2) gridSize)"

definition merged_with :: "(LabColor \<Rightarrow> LabColor \<Rightarrow> real) \<Rightarrow> real \<Rightarrow> nat list \<Rightarrow> nat \<Rightarrow> bool" where
  "merged_with deltaE maxDelta accepted c \<longleftrightarrow>
     (\<exists>a \<in> set accepted.
        same_bucket a c \<and> deltaE (convertToLab c) (convertToLab a) < maxDelta)"

fun select ::
  "(LabColor \<Rightarrow> LabColor \<Rightarrow> real) \<Rightarrow> nat \<Rightarrow> real \<Rightarrow> nat list \<Rightarrow> nat list \<Rightarrow> nat list" where
  "select deltaE limit maxDelta accepted [] = accepted"
| "select deltaE limit maxDelta accepted (c # cs) =
     (if length accepted \<ge> limit then accepted
      else if merged_with deltaE maxDelta accepted c
           then select deltaE limit maxDelta accepted cs
           else select deltaE limit maxDelta (accepted @ [c]) cs)"

definition selection :: "Palette \<Rightarrow> nat \<Rightarrow> nat list" where
  "selection p colorCount =
     (if colorCount = 0 then []
      else select calculateDeltaE (min (length (ranking p)) colorCount)
             (100 / real colorCount) [] (ranking p))"

text \<open>The plain Euclidean distance in Lab, without the test of the lightness.\<close>

definition euclideanDeltaE :: "LabColor \<Rightarrow> LabColor \<Rightarrow> real" where
  "euclideanDeltaE lab1 lab2 =
     sqrt ((lab_L lab2 - lab_L lab1)\<^sup>2 + (lab_a lab2 - lab_a lab1)\<^sup>2
           + (lab_b lab2 - lab_b lab1)\<^sup>2)"

text \<open>
  No two accepted colours at distinct positions lie in the same grid bucket at a
  computed distance below \<open>maxDelta\<close>.
\<close>

definition separated :: "real \<Rightarrow> nat list \<Rightarrow> bool" where
  "separated maxDelta accepted \<longleftrightarrow>
     (\<forall>i < length accepted. \<forall>j < length accepted.
        i \<noteq> j \<and> same_bucket (accepted ! i) (accepted ! j) \<longrightarrow>
        \<not> calculateDeltaE (convertToLab (accepted ! i)) (convertToLab (accepted ! j)) < maxDelta)"

text \<open>
  Two colours that the merge pass would merge at the threshold \<open>maxDelta\<close>: same grid
  bucket and a computed distance below the threshold.
\<close>

definition mergeable :: "real \<Rightarrow> nat \<Rightarrow> nat \<Rightarrow> bool" where
  "mergeable maxDelta a c \<longleftrightarrow>
     same_bucket a c \<and> calculateDeltaE (convertToLab c) (convertToLab a) < maxDelta"

section \<open>Invariants\<close>

text \<open>Every cached entry holds the conversion of its key.\<close>

definition cache_ok :: "ColorExtractor \<Rightarrow> bool" where
  "cache_ok this = (\<forall>(c, labColor) \<in> set (labCache this). labColor = convertToLab c)"

text \<open>The cache is sound, and the cached ranking, when there is one, is the palette's.\<close>

definition extractor_inv :: "ColorExtractor \<Rightarrow> bool" where
  "extractor_inv this \<longleftrightarrow>
     cache_ok this \<and>
     (sortedColors this = None \<or> sortedColors this = Some (ranking (palette this)))"

text \<open>The fields that a merge pass leaves alone.\<close>

definition same_instance :: "ColorExtractor \<Rightarrow> ColorExtractor \<Rightarrow> bool" where
  "same_instance this this1 \<longleftrightarrow>
     palette this1 = palette this \<and> options this1 = options this \<and>
     sortedColors this1 = sortedColors this"

text \<open>
  The state of a merge pass: \<open>labColors\<close> holds the conversions of \<open>result\<close>, and the
  bucket of every key holds, in increasing order, the indices of the accepted colours
  with that key.
\<close>

definition bucket :: "MergeState \<Rightarrow> int \<times> int \<times> int \<Rightarrow> nat list" where
  "bucket st k = (case spatialGrid st k of None \<Rightarrow> [] | Some is \<Rightarrow> is)"

definition grid_inv :: "MergeState \<Rightarrow> bool" where
  "grid_inv st \<longleftrightarrow>
     labColors st = map convertToLab (result st) \<and>
     (\<forall>k. bucket st k =
           filter (\<lambda>i. getGridKey (convertToLab (result st ! i)) gridSize = k)
             [0..<length (result st)])"

section \<open>Sorting\<close>

lemma Array_insert_insort_key:
  "Array_insert (\<lambda>a b. f b - f a) x xs = insort_key (\<lambda>e. - f e) x xs"
  by (induction xs) auto

lemma Array_sort_sort_key:
  "Array_sort (\<lambda>a b. f b - f a) xs = sort_key (\<lambda>e. - f e) xs"
  by (induction xs) (simp_all add: Array_sort_def Array_insert_insort_key)

lemma iterator_sort_key: "iterator p = sort_key (\<lambda>e. - int (snd e)) (colors p)"
  unfolding iterator_def by (rule Array_sort_sort_key)

lemma insort_key_map:
  "insort_key f (g x) (map g xs) = map g (insort_key (\<lambda>y. f (g y)) x xs)"
  by (induction xs) simp_all

lemma sort_key_map: "sort_key f (map g xs) = map g (sort_key (\<lambda>y. f (g y)) xs)"
  by (induction xs) (simp_all add: insort_key_map)

section \<open>The conversion cache\<close>

lemma set_update_subset: "set (AList.update k v al) \<subseteq> insert (k, v) (set al)"
  by (induction al) auto

lemma getLabColor_value: "cache_ok this \<Longrightarrow> fst (getLabColor this c) = convertToLab c"
  by (auto simp: getLabColor_def cache_ok_def Let_def split: option.splits dest!: map_of_SomeD)

lemma getLabColor_cache_ok: "cache_ok this \<Longrightarrow> cache_ok (snd (getLabColor this c))"
  using set_update_subset [of c "convertToLab c"]
  by (fastforce simp: getLabColor_def cache_ok_def Let_def split: option.splits)

lemma getLabColor_fields:
  "palette (snd (getLabColor this c)) = palette this"
  "options (snd (getLabColor this c)) = options this"
  "sortedColors (snd (getLabColor this c)) = sortedColors this"
  by (simp_all add: getLabColor_def Let_def split: option.splits)

section \<open>The ranking\<close>

lemma priorities_loop_value:
  "cache_ok this \<Longrightarrow>
   fst (priorities_loop this es) = map (\<lambda>(c, n). (c, priority_reference c n)) es"
proof (induction es arbitrary: this)
  case Nil
  then show ?case by simp
next
  case (Cons e es)
  obtain c n where e: "e = (c, n)" by (cases e)
  have l: "fst (getLabColor this c) = convertToLab c"
    using getLabColor_value [OF Cons.prems] .
  have ok: "cache_ok (snd (getLabColor this c))"
    using getLabColor_cache_ok [OF Cons.prems] .
  show ?case
    using Cons.IH [OF ok]
    by (simp add: e l Let_def case_prod_beta priority_reference_def power2_eq_square)
qed

lemma priorities_loop_cache_ok:
  "cache_ok this \<Longrightarrow> cache_ok (snd (priorities_loop this es))"
proof (induction es arbitrary: this)
  case Nil
  then show ?case by simp
next
  case (Cons e es)
  obtain c n where e: "e = (c, n)" by (cases e)
  show ?case
    using Cons.IH [OF getLabColor_cache_ok [OF Cons.prems, of c]]
    by (simp add: e Let_def case_prod_beta)
qed

lemma priorities_loop_fields:
  "palette (snd (priorities_loop this es)) = palette this \<and>
   options (snd (priorities_loop this es)) = options this"
proof (induction es arbitrary: this)
  case Nil
  then show ?case by simp
next
  case (Cons e es)
  obtain c n where e: "e = (c, n)" by (cases e)
  show ?case
    using Cons.IH [of "snd (getLabColor this c)"]
    by (simp add: e Let_def case_prod_beta getLabColor_fields)
qed

lemma initialize_sortedColors:
  assumes "cache_ok this"
  shows "sortedColors (initialize this) = Some (ranking (palette this))"
proof (cases "iterator (palette this) = []")
  case True
  then show ?thesis by (simp add: initialize_def ranking_def)
next
  case False
  have "map fst (sort_key (\<lambda>x. - snd x)
          (map (\<lambda>(c, n). (c, priority_reference c n)) (iterator (palette this))))
        = ranking (palette this)"
    by (simp add: sort_key_map ranking_def comp_def case_prod_beta)
  then show ?thesis
    using False priorities_loop_value [OF assms, of "iterator (palette this)"]
    by (simp add: initialize_def Let_def case_prod_beta Array_sort_sort_key)
qed

lemma initialize_state:
  "cache_ok this \<Longrightarrow> cache_ok (initialize this)"
  "palette (initialize this) = palette this"
  "options (initialize this) = options this"
  using priorities_loop_fields [of this "iterator (palette this)"]
    priorities_loop_cache_ok [of this "iterator (palette this)"]
  by (simp_all add: initialize_def Let_def case_prod_beta cache_ok_def)

section \<open>The merge pass\<close>

lemma grid_inv_initial: "grid_inv initial_state"
  by (simp add: grid_inv_def initial_state_def bucket_def)

lemma grid_inv_labColors: "grid_inv st \<Longrightarrow> labColors st = map convertToLab (result st)"
  unfolding grid_inv_def by blast

lemma grid_inv_bucket:
  "grid_inv st \<Longrightarrow>
   bucket st k = filter (\<lambda>i. getGridKey (convertToLab (result st ! i)) gridSize = k)
                   [0..<length (result st)]"
  unfolding grid_inv_def by blast

lemma isMerged_in_range:
  "\<forall>i \<in> set is. i < length labs \<Longrightarrow>
   isMerged deltaE colorLab labs maxDelta is
     = Inr (\<exists>i \<in> set is. deltaE colorLab (labs ! i) < maxDelta)"
  by (induction "is") auto

lemma bucket_accept:
  "bucket (accept st c colorLab k) k' =
     (if k' = k then bucket st k @ [length (result st)] else bucket st k')"
  by (auto simp: bucket_def accept_def Let_def split: option.splits)

lemma result_accept: "result (accept st c colorLab k) = result st @ [c]"
  by (simp add: accept_def Let_def)

lemma grid_inv_accept:
  assumes "grid_inv st"
  shows "grid_inv (accept st c (convertToLab c) (getGridKey (convertToLab c) gridSize))"
proof -
  let ?n = "length (result st)"
  have res: "result (accept st c (convertToLab c) (getGridKey (convertToLab c) gridSize))
               = result st @ [c]"
    by (simp add: accept_def Let_def)
  have labs: "labColors (accept st c (convertToLab c) (getGridKey (convertToLab c) gridSize))
               = map convertToLab (result st @ [c])"
    using grid_inv_labColors [OF assms] by (simp add: accept_def Let_def)
  have flt: "filter (\<lambda>i. getGridKey (convertToLab ((result st @ [c]) ! i)) gridSize = k) [0..<?n]
             = filter (\<lambda>i. getGridKey (convertToLab (result st ! i)) gridSize = k) [0..<?n]" for k
    by (rule filter_cong) (simp_all add: nth_append)
  have "bucket (accept st c (convertToLab c) (getGridKey (convertToLab c) gridSize)) k
          = filter (\<lambda>i. getGridKey (convertToLab ((result st @ [c]) ! i)) gridSize = k)
              [0..<length (result st @ [c])]" for k
    by (simp add: bucket_accept flt grid_inv_bucket [OF assms])
  then show ?thesis
    unfolding grid_inv_def res labs by blast
qed

lemma grid_inv_isMerged:
  assumes "grid_inv st"
  shows "isMerged deltaE (convertToLab c) (labColors st) maxDelta
           (bucket st (getGridKey (convertToLab c) gridSize))
         = Inr (merged_with deltaE maxDelta (result st) c)"
proof -
  let ?k = "getGridKey (convertToLab c) gridSize"
  have b: "bucket st ?k
        = filter (\<lambda>i. getGridKey (convertToLab (result st ! i)) gridSize = ?k) [0..<length (result st)]"
    using assms by (rule grid_inv_bucket)
  have labs: "labColors st = map convertToLab (result st)"
    using assms by (rule grid_inv_labColors)
  have len: "length (labColors st) = length (result st)"
    by (simp add: labs)
  have rng: "\<forall>i \<in> set (bucket st ?k). i < length (labColors st)"
    by (simp add: b len)
  have "(\<exists>i \<in> set (bucket st ?k). deltaE (convertToLab c) (labColors st ! i) < maxDelta)
        \<longleftrightarrow> merged_with deltaE maxDelta (result st) c"
    unfolding b merged_with_def same_bucket_def labs
    by (fastforce simp: in_set_conv_nth)
  then show ?thesis
    using isMerged_in_range [OF rng] by simp
qed

lemma mergeStep_refine:
  assumes "cache_ok this" "grid_inv st"
  shows "mergeStep deltaE maxDelta c st this =
           (Inr (if merged_with deltaE maxDelta (result st) c then st
                 else accept st c (convertToLab c) (getGridKey (convertToLab c) gridSize)),
            snd (getLabColor this c))"
  using getLabColor_value [OF assms(1), of c] grid_inv_isMerged [OF assms(2), of deltaE c maxDelta]
  by (simp add: mergeStep_def Let_def case_prod_beta bucket_def)

lemma mergeLoop_refine:
  "cache_ok this \<Longrightarrow> grid_inv st \<Longrightarrow>
   \<exists>this1. mergeLoop deltaE actualLimit maxDelta cs st this
              = (Inr (select deltaE actualLimit maxDelta (result st) cs), this1)
           \<and> cache_ok this1 \<and> same_instance this this1"
proof (induction cs arbitrary: st this)
  case Nil
  then show ?case by (simp add: same_instance_def)
next
  case (Cons c cs)
  let ?this1 = "snd (getLabColor this c)"
  let ?st1 = "if merged_with deltaE maxDelta (result st) c then st
              else accept st c (convertToLab c) (getGridKey (convertToLab c) gridSize)"
  have step: "mergeStep deltaE maxDelta c st this = (Inr ?st1, ?this1)"
    using mergeStep_refine [OF Cons.prems] .
  have ok1: "cache_ok ?this1"
    using getLabColor_cache_ok [OF Cons.prems(1)] .
  have inv1: "grid_inv ?st1"
    using Cons.prems(2) grid_inv_accept by simp
  have same1: "same_instance this ?this1"
    by (simp add: same_instance_def getLabColor_fields)
  show ?case
  proof (cases "length (result st) \<ge> actualLimit")
    case True
    then show ?thesis using Cons.prems by (simp add: same_instance_def)
  next
    case False
    obtain this2 where
      "mergeLoop deltaE actualLimit maxDelta cs ?st1 ?this1
         = (Inr (select deltaE actualLimit maxDelta (result ?st1) cs), this2)"
      "cache_ok this2" "same_instance ?this1 this2"
      using Cons.IH [OF ok1 inv1] by blast
    then show ?thesis
      using False same1 step
      by (auto simp: same_instance_def merged_with_def result_accept)
  qed
qed

lemma select_limit_0: "select deltaE 0 maxDelta [] cs = []"
  by (cases cs) simp_all

lemma select_full: "length accepted \<ge> limit \<Longrightarrow> select deltaE limit maxDelta accepted cs = accepted"
  by (cases cs) simp_all

lemma select_limit_1: "select deltaE (Suc 0) maxDelta [] cs = take (Suc 0) cs"
  by (cases cs) (simp_all add: select_full merged_with_def)

lemma mergeColorsWith_refine:
  assumes "cache_ok this"
  shows "\<exists>this1. mergeColorsWith deltaE this cs limit maxDelta
              = (Inr (select deltaE (min (length cs) limit) maxDelta [] cs), this1)
           \<and> cache_ok this1 \<and> same_instance this this1"
proof (cases "min (length cs) limit \<le> 1")
  case True
  then have "min (length cs) limit = 0 \<or> min (length cs) limit = Suc 0" by linarith
  then have "select deltaE (min (length cs) limit) maxDelta [] cs = take (min (length cs) limit) cs"
    by (auto simp: select_limit_0 select_limit_1)
  then show ?thesis
    using True assms by (simp add: mergeColorsWith_def Let_def same_instance_def)
next
  case False
  then show ?thesis
    using mergeLoop_refine [OF assms grid_inv_initial, of deltaE "min (length cs) limit" maxDelta cs]
    by (simp add: mergeColorsWith_def Let_def initial_state_def)
qed

lemma extract_refine:
  assumes "extractor_inv this"
  shows "\<exists>this1. extract colorCount this = (Inr (selection (palette this) colorCount), this1)
           \<and> extractor_inv this1 \<and> palette this1 = palette this \<and> options this1 = options this"
proof (cases "colorCount = 0")
  case True
  then show ?thesis using assms by (simp add: extract_def selection_def)
next
  case False
  let ?this1 = "if sortedColors this = None then initialize this else this"
  have ok: "cache_ok ?this1"
    using assms initialize_state(1) by (simp add: extractor_inv_def)
  have sc: "sortedColors ?this1 = Some (ranking (palette this))"
    using assms initialize_sortedColors by (auto simp: extractor_inv_def)
  have pal: "palette ?this1 = palette this" "options ?this1 = options this"
    by (simp_all add: initialize_state)
  obtain this2 where m:
    "mergeColorsWith calculateDeltaE ?this1 (ranking (palette this)) colorCount (100 / real colorCount)
       = (Inr (select calculateDeltaE (min (length (ranking (palette this))) colorCount)
                 (100 / real colorCount) [] (ranking (palette this))), this2)"
    "cache_ok this2" "same_instance ?this1 this2"
    using mergeColorsWith_refine [OF ok] by blast
  have "extract colorCount this
          = mergeColorsWith calculateDeltaE ?this1 (ranking (palette this)) colorCount (100 / real colorCount)"
    using False sc by (simp add: extract_def mergeColors_def Let_def)
  moreover have "extractor_inv this2 \<and> palette this2 = palette this \<and> options this2 = options this"
    using m(2,3) sc pal unfolding extractor_inv_def same_instance_def by simp
  ultimately show ?thesis
    using m(1) False by (simp add: selection_def)
qed

section \<open>The colour conversion\<close>

lemma and_255: "(n::nat) AND 255 = n mod 256"
proof -
  have "n AND mask 8 = n mod 2 ^ 8"
    by (simp only: take_bit_eq_mask [symmetric] take_bit_eq_mod)
  moreover have "mask 8 = (255::nat)"
    by (simp add: mask_eq_exp_minus_1)
  ultimately show ?thesis by simp
qed

lemma unpack_bytes:
  "drop_bit 16 c AND RGB_MAX = c div 65536 mod 256"
  "drop_bit 8 c AND RGB_MAX = c div 256 mod 256"
  "c AND RGB_MAX = c mod 256"
  by (simp_all add: RGB_MAX_def and_255 drop_bit_eq_div)

lemma rgbToSrgb_reference: "rgbToSrgb = transfer_reference"
  by (rule ext) (simp add: rgbToSrgb_def transfer_reference_def SRGB_THRESHOLD_def SRGB_FACTOR_def)

lemma xyzToLabStep_reference: "xyzToLabStep = nonlinearity_reference"
  by (rule ext) (simp add: xyzToLabStep_def nonlinearity_reference_def XYZ_THRESHOLD_def XYZ_FACTOR_def XYZ_OFFSET_def)

lemma lab0: "convertToLab 0 = \<lparr>lab_L = 0, lab_a = 0, lab_b = 0\<rparr>"
  by (simp add: convertToLab_def Let_def RGB_MAX_def rgbToSrgb_def SRGB_THRESHOLD_def SRGB_FACTOR_def
      xyzToLab_def xyzToLabStep_def XYZ_THRESHOLD_def XYZ_FACTOR_def XYZ_OFFSET_def
      WHITE_POINT_X_def WHITE_POINT_Y_def WHITE_POINT_Z_def)

section \<open>Ranking and selection\<close>

lemma length_ranking: "length (ranking p) = palette_length p"
  by (simp add: ranking_def iterator_sort_key palette_length_def)

lemma set_ranking: "set (ranking p) = fst ` set (colors p)"
  by (simp add: ranking_def iterator_sort_key)

lemma select_length:
  "length accepted \<le> limit \<Longrightarrow> length (select deltaE limit maxDelta accepted cs) \<le> limit"
  by (induction cs arbitrary: accepted) auto

lemma select_set:
  "set (select deltaE limit maxDelta accepted cs) \<subseteq> set accepted \<union> set cs"
proof (induction cs arbitrary: accepted)
  case Nil
  then show ?case by simp
next
  case (Cons c cs)
  show ?case
    using Cons.IH [of accepted] Cons.IH [of "accepted @ [c]"] by auto
qed

lemma selection_length: "length (selection p colorCount) \<le> min colorCount (palette_length p)"
  using select_length [of "[]" "min (length (ranking p)) colorCount"]
  by (simp add: selection_def length_ranking)

lemma selection_set: "set (selection p colorCount) \<subseteq> fst ` set (colors p)"
  using select_set [of calculateDeltaE _ _ "[]" "ranking p"]
  by (simp add: selection_def set_ranking)

section \<open>Histories of calls\<close>

lemma extractor_inv_new: "extractor_inv (ColorExtractor_new p opts)"
  by (simp add: extractor_inv_def cache_ok_def ColorExtractor_new_def)

lemma extractor_inv_clearCache: "extractor_inv this \<Longrightarrow> extractor_inv (clearCache this)"
  by (simp add: extractor_inv_def cache_ok_def clearCache_def)

lemma run_inv:
  "extractor_inv this \<Longrightarrow>
   extractor_inv (run calls this) \<and> palette (run calls this) = palette this
   \<and> options (run calls this) = options this"
proof (induction calls arbitrary: this)
  case Nil
  then show ?case by simp
next
  case (Cons call calls)
  show ?case
  proof (cases call)
    case (Extract k)
    obtain this1 where "extract k this = (Inr (selection (palette this) k), this1)"
      "extractor_inv this1" "palette this1 = palette this" "options this1 = options this"
      using extract_refine [OF Cons.prems] by blast
    then show ?thesis
      using Cons.IH [of this1] Extract by simp
  next
    case ClearCache
    then show ?thesis
      using Cons.IH [OF extractor_inv_clearCache [OF Cons.prems]] by (simp add: clearCache_def)
  qed
qed

lemma extract_after_run:
  "\<exists>this1. extract colorCount (run calls (ColorExtractor_new p opts))
             = (Inr (selection p colorCount), this1)"
proof -
  have inv: "extractor_inv (run calls (ColorExtractor_new p opts))"
    and pal: "palette (run calls (ColorExtractor_new p opts)) = p"
    using run_inv [OF extractor_inv_new, of calls p opts] by (simp_all add: ColorExtractor_new_def)
  show ?thesis
    using extract_refine [OF inv, of colorCount] pal by auto
qed

section \<open>Separation of the accepted colours\<close>

lemma calculateDeltaE_sym: "calculateDeltaE lab1 lab2 = calculateDeltaE lab2 lab1"
proof -
  have "\<bar>lab_L lab2 - lab_L lab1\<bar> = \<bar>lab_L lab1 - lab_L lab2\<bar>" by simp
  moreover have "(lab_L lab2 - lab_L lab1) * (lab_L lab2 - lab_L lab1)
        = (lab_L lab1 - lab_L lab2) * (lab_L lab1 - lab_L lab2)" by (simp add: algebra_simps)
  moreover have "(lab_a lab2 - lab_a lab1) * (lab_a lab2 - lab_a lab1)
        = (lab_a lab1 - lab_a lab2) * (lab_a lab1 - lab_a lab2)" by (simp add: algebra_simps)
  moreover have "(lab_b lab2 - lab_b lab1) * (lab_b lab2 - lab_b lab1)
        = (lab_b lab1 - lab_b lab2) * (lab_b lab1 - lab_b lab2)" by (simp add: algebra_simps)
  ultimately show ?thesis
    unfolding calculateDeltaE_def Let_def by presburger
qed

lemma same_bucket_sym: "same_bucket a b = same_bucket b a"
  by (auto simp: same_bucket_def)

lemma separated_Nil: "separated maxDelta []"
  by (simp add: separated_def)

lemma separated_append:
  assumes "separated maxDelta accepted" "\<not> merged_with calculateDeltaE maxDelta accepted c"
  shows "separated maxDelta (accepted @ [c])"
  unfolding separated_def
proof (intro allI impI)
  fix i j
  assume i: "i < length (accepted @ [c])" and j: "j < length (accepted @ [c])"
    and h: "i \<noteq> j \<and> same_bucket ((accepted @ [c]) ! i) ((accepted @ [c]) ! j)"
  let ?d = "\<lambda>x y. calculateDeltaE (convertToLab x) (convertToLab y)"
  have far: "a \<in> set accepted \<Longrightarrow> same_bucket a c \<Longrightarrow> \<not> ?d c a < maxDelta" for a
    using assms(2) by (auto simp: merged_with_def)
  consider "i < length accepted" "j < length accepted"
    | "i < length accepted" "j = length accepted"
    | "i = length accepted" "j < length accepted"
    using i j h by (cases "i < length accepted"; cases "j < length accepted") auto
  then show "\<not> ?d ((accepted @ [c]) ! i) ((accepted @ [c]) ! j) < maxDelta"
  proof cases
    case 1
    then show ?thesis
      using assms(1) h by (simp add: separated_def nth_append)
  next
    case 2
    then have "same_bucket (accepted ! i) c" using h by (simp add: nth_append)
    then have "\<not> ?d c (accepted ! i) < maxDelta" using far 2 by simp
    then show ?thesis using 2 by (simp add: nth_append calculateDeltaE_sym [of "convertToLab c"])
  next
    case 3
    then have "same_bucket (accepted ! j) c"
      using h by (simp add: nth_append same_bucket_sym [of c])
    then have "\<not> ?d c (accepted ! j) < maxDelta" using far 3 by simp
    then show ?thesis using 3 by (simp add: nth_append)
  qed
qed

lemma select_separated:
  "separated maxDelta accepted \<Longrightarrow>
   separated maxDelta (select calculateDeltaE limit maxDelta accepted cs)"
  by (induction cs arbitrary: accepted) (simp_all add: separated_append)

lemma mergeStep_result:
  assumes "cache_ok this" "grid_inv st"
  shows "\<exists>st1 this1.
           mergeStep deltaE maxDelta c st this = (Inr st1, this1) \<and>
           cache_ok this1 \<and> grid_inv st1 \<and>
           result st1 = (if merged_with deltaE maxDelta (result st) c then result st
                         else result st @ [c])"
  using mergeStep_refine [OF assms, of deltaE maxDelta c] getLabColor_cache_ok [OF assms(1), of c]
    grid_inv_accept [OF assms(2), of c] assms(2)
  by (auto simp: result_accept)

section \<open>The lightness test inside one bucket\<close>

lemma same_floor_close:
  fixes x y :: real
  assumes "\<lfloor>x / 20\<rfloor> = \<lfloor>y / 20\<rfloor>"
  shows "\<bar>y - x\<bar> < 20"
proof -
  define n :: real where "n = of_int \<lfloor>x / 20\<rfloor>"
  have x: "n \<le> x / 20" "x / 20 < n + 1"
    unfolding n_def by linarith+
  have y: "n \<le> y / 20" "y / 20 < n + 1"
    unfolding n_def assms by linarith+
  show ?thesis using x y by linarith
qed

lemma same_key_distance:
  assumes "getGridKey lab1 gridSize = getGridKey lab2 gridSize"
  shows "\<bar>lab_L lab2 - lab_L lab1\<bar> < 20"
    and "calculateDeltaE lab1 lab2 = euclideanDeltaE lab1 lab2"
proof -
  show d: "\<bar>lab_L lab2 - lab_L lab1\<bar> < 20"
    using assms same_floor_close [of "lab_L lab1" "lab_L lab2"]
    by (simp add: getGridKey_def gridSize_def Let_def)
  then have "\<not> \<bar>lab_L lab2 - lab_L lab1\<bar> > 50" by simp
  then show "calculateDeltaE lab1 lab2 = euclideanDeltaE lab1 lab2"
    by (simp add: calculateDeltaE_def euclideanDeltaE_def Let_def power2_eq_square)
qed

lemma merged_with_euclidean:
  "merged_with calculateDeltaE maxDelta accepted c = merged_with euclideanDeltaE maxDelta accepted c"
proof -
  have "calculateDeltaE (convertToLab c) (convertToLab a) = euclideanDeltaE (convertToLab c) (convertToLab a)"
    if "same_bucket a c" for a
    using that same_key_distance(2) [of "convertToLab c" "convertToLab a"]
    by (simp add: same_bucket_def)
  then show ?thesis
    unfolding merged_with_def by metis
qed

lemma mergeLoop_euclidean:
  "cache_ok this \<Longrightarrow> grid_inv st \<Longrightarrow>
   mergeLoop calculateDeltaE actualLimit maxDelta cs st this
     = mergeLoop euclideanDeltaE actualLimit maxDelta cs st this"
proof (induction cs arbitrary: st this)
  case Nil
  then show ?case by simp
next
  case (Cons c cs)
  let ?this1 = "snd (getLabColor this c)"
  let ?st1 = "if merged_with calculateDeltaE maxDelta (result st) c then st
              else accept st c (convertToLab c) (getGridKey (convertToLab c) gridSize)"
  have s1: "mergeStep calculateDeltaE maxDelta c st this = (Inr ?st1, ?this1)"
    using mergeStep_refine [OF Cons.prems] .
  have s2: "mergeStep euclideanDeltaE maxDelta c st this = (Inr ?st1, ?this1)"
    using mergeStep_refine [OF Cons.prems, of euclideanDeltaE maxDelta c]
    by (simp add: merged_with_euclidean)
  have ok1: "cache_ok ?this1"
    using getLabColor_cache_ok [OF Cons.prems(1)] .
  have inv1: "grid_inv ?st1"
    using Cons.prems(2) grid_inv_accept by simp
  show ?case
    using Cons.IH [OF ok1 inv1] by (simp add: s1 s2)
qed

section \<open>When nothing is merged\<close>

lemma mergeable_sym: "mergeable maxDelta a c = mergeable maxDelta c a"
  unfolding mergeable_def
  using same_bucket_sym [of a c] calculateDeltaE_sym [of "convertToLab c" "convertToLab a"]
  by simp

lemma merged_with_mergeable:
  "merged_with calculateDeltaE maxDelta accepted c \<longleftrightarrow> (\<exists>a \<in> set accepted. mergeable maxDelta a c)"
  by (simp add: merged_with_def mergeable_def)

lemma select_length_le:
  "length (select deltaE limit maxDelta accepted cs) \<le> length accepted + length cs"
proof (induction cs arbitrary: accepted)
  case Nil
  then show ?case by simp
next
  case (Cons c cs)
  show ?case
    using Cons.IH [of accepted] Cons.IH [of "accepted @ [c]"] by auto
qed

lemma select_length_ge:
  "length accepted \<le> length (select deltaE limit maxDelta accepted cs)"
proof (induction cs arbitrary: accepted)
  case Nil
  then show ?case by simp
next
  case (Cons c cs)
  show ?case
    using Cons.IH [of accepted] Cons.IH [of "accepted @ [c]"] by auto
qed

lemma select_nonempty:
  assumes "cs \<noteq> []" "0 < limit"
  shows "1 \<le> length (select deltaE limit maxDelta [] cs)"
proof -
  obtain c cs1 where cs: "cs = c # cs1" using assms(1) by (cases cs) auto
  show ?thesis
    using select_length_ge [of "[c]" deltaE limit maxDelta cs1] assms(2)
    by (simp add: cs merged_with_def)
qed

lemma select_all_iff:
  "distinct (accepted @ cs) \<Longrightarrow> length accepted + length cs \<le> limit \<Longrightarrow>
   length (select calculateDeltaE limit maxDelta accepted cs) = length accepted + length cs
   \<longleftrightarrow> (\<forall>c \<in> set cs. \<forall>a \<in> set accepted \<union> set cs. a \<noteq> c \<longrightarrow> \<not> mergeable maxDelta a c)"
proof (induction cs arbitrary: accepted)
  case Nil
  then show ?case by simp
next
  case (Cons c cs)
  have lim: "\<not> limit \<le> length accepted" using Cons.prems(2) by simp
  show ?case
  proof (cases "merged_with calculateDeltaE maxDelta accepted c")
    case True
    then obtain a where a: "a \<in> set accepted" "mergeable maxDelta a c"
      by (auto simp: merged_with_mergeable)
    then have "a \<noteq> c" using Cons.prems(1) by auto
    then have rhs: "\<not> (\<forall>c' \<in> set (c # cs). \<forall>a \<in> set accepted \<union> set (c # cs).
                        a \<noteq> c' \<longrightarrow> \<not> mergeable maxDelta a c')"
      using a by auto
    have "length (select calculateDeltaE limit maxDelta accepted (c # cs))
            \<le> length accepted + length cs"
      using True lim select_length_le [of calculateDeltaE limit maxDelta accepted cs] by simp
    then show ?thesis using rhs by simp
  next
    case False
    have d: "distinct ((accepted @ [c]) @ cs)" using Cons.prems(1) by simp
    have l: "length (accepted @ [c]) + length cs \<le> limit" using Cons.prems(2) by simp
    have far: "\<forall>a \<in> set accepted. \<not> mergeable maxDelta a c"
      using False by (simp add: merged_with_mergeable)
    have "(\<forall>c' \<in> set cs. \<forall>a \<in> set (accepted @ [c]) \<union> set cs. a \<noteq> c' \<longrightarrow> \<not> mergeable maxDelta a c')
          \<longleftrightarrow> (\<forall>c' \<in> set (c # cs). \<forall>a \<in> set accepted \<union> set (c # cs).
                        a \<noteq> c' \<longrightarrow> \<not> mergeable maxDelta a c')"
    proof -
      have "\<not> mergeable maxDelta a c" if "a \<in> set cs"
        "\<forall>c' \<in> set cs. \<forall>a \<in> set (accepted @ [c]) \<union> set cs. a \<noteq> c' \<longrightarrow> \<not> mergeable maxDelta a c'"
        for a
      proof -
        have "c \<noteq> a" using that(1) Cons.prems(1) by auto
        then have "\<not> mergeable maxDelta c a" using that by simp
        then show ?thesis by (simp add: mergeable_sym [of maxDelta a c])
      qed
      then show ?thesis using far by fastforce
    qed
    then show ?thesis
      using Cons.IH [OF d l] False lim by simp
  qed
qed

lemma distinct_ranking: "distinct (map fst (colors p)) \<Longrightarrow> distinct (ranking p)"
proof -
  assume d: "distinct (map fst (colors p))"
  have "mset (ranking p) = mset (map fst (colors p))"
    by (simp add: ranking_def iterator_sort_key)
  then show ?thesis
    using d mset_eq_imp_distinct_iff by blast
qed

lemma selection_all_iff:
  assumes "distinct (map fst (colors p))" "palette_length p < colorCount"
  shows "length (selection p colorCount) = palette_length p \<longleftrightarrow>
         (\<forall>a \<in> fst ` set (colors p). \<forall>c \<in> fst ` set (colors p).
            a \<noteq> c \<longrightarrow> \<not> mergeable (100 / real colorCount) a c)"
proof -
  have m: "min (length (ranking p)) colorCount = length (ranking p)"
    using assms(2) by (simp add: length_ranking)
  have "length (select calculateDeltaE (length (ranking p)) (100 / real colorCount) [] (ranking p))
          = length (ranking p)
        \<longleftrightarrow> (\<forall>c \<in> set (ranking p). \<forall>a \<in> set (ranking p). a \<noteq> c \<longrightarrow>
               \<not> mergeable (100 / real colorCount) a c)"
    using select_all_iff [of "[]" "ranking p" "length (ranking p)" "100 / real colorCount"]
      distinct_ranking [OF assms(1)] by simp
  then show ?thesis
    using assms(2) unfolding selection_def m set_ranking length_ranking by auto
qed

section \<open>Two nearly black colours\<close>

lemmas conversion_defs = convertToLab_def Let_def RGB_MAX_def rgbToSrgb_def SRGB_THRESHOLD_def
  SRGB_FACTOR_def xyzToLab_def xyzToLabStep_def XYZ_THRESHOLD_def XYZ_FACTOR_def XYZ_OFFSET_def
  WHITE_POINT_X_def WHITE_POINT_Y_def WHITE_POINT_Z_def MATRIX_X_def MATRIX_Y_def MATRIX_Z_def

lemma lab2:
  "convertToLab 2 = \<lparr>lab_L = 70411043 / 1779084000, lab_a = 4644700871 / 16700898464,
        lab_b = - (108609580057 / 143490372720)\<rparr>"
  by (simp add: conversion_defs and_255)

lemma priority_black: "priority_reference 0 n = sqrt (real n)"
  by (simp add: priority_reference_def lab0)

lemma priority_blue2: "priority_reference 2 n \<le> priority_reference 0 n"
proof -
  let ?q = "(4644700871 / 16700898464 :: real)\<^sup>2 + (- (108609580057 / 143490372720))\<^sup>2"
  let ?w = "1 - 70411043 / 1779084000 * 0.005 :: real"
  have q: "0 < ?q" "?q < 1" by (simp_all add: power2_eq_square)
  then have s: "0 < sqrt ?q" "sqrt ?q < 1" by simp_all
  have w: "0 \<le> ?w" "?w \<le> 1"
    by simp_all
  have "sqrt ?q * ?w \<le> 1 * 1"
    using s w by (intro mult_mono) simp_all
  then have "sqrt ?q * ?w * sqrt (real n) \<le> 1 * sqrt (real n)"
    by (intro mult_right_mono) simp_all
  moreover have "priority_reference 2 n = sqrt ?q * ?w * sqrt (real n)"
    using s(1) unfolding priority_reference_def lab2 Let_def by simp
  ultimately show ?thesis
    by (simp add: priority_black)
qed

lemma ranking_two: "ranking \<lparr>colors = [(0, 3), (2, 3)]\<rparr> = [0, 2]"
  using priority_blue2 [of 3]
  by (simp add: ranking_def iterator_def Array_sort_def)

lemma bucket_two: "same_bucket 0 2"
  by (simp add: same_bucket_def lab0 lab2 getGridKey_def gridSize_def)

lemma distance_two: "calculateDeltaE (convertToLab 2) (convertToLab 0) < 100 / 3"
proof -
  have "sqrt ((70411043 / 1779084000)\<^sup>2 + (4644700871 / 16700898464)\<^sup>2
          + (108609580057 / 143490372720)\<^sup>2) < (100 / 3 :: real)"
    by (rule real_less_lsqrt) (simp_all add: power2_eq_square)
  then show ?thesis
    by (simp add: calculateDeltaE_def lab0 lab2 Let_def power2_eq_square)
qed

lemma selection_two: "selection \<lparr>colors = [(0, 3), (2, 3)]\<rparr> 3 = [0]"
  using bucket_two distance_two
  by (simp add: selection_def ranking_two merged_with_def)

section \<open>The ranking in the host's arithmetic\<close>

lemma mset_iterator: "mset (iterator p) = mset (colors p)"
  by (simp add: iterator_sort_key)

lemma Array_insert_by_key:
  fixes f :: "'a \<Rightarrow> real"
  shows "\<forall>y \<in> set ys. cmp x y \<le> 0 \<longleftrightarrow> f y \<le> f x \<Longrightarrow>
   Array_insert cmp x ys = insort_key (\<lambda>e. - f e) x ys"
  by (induction ys) auto

lemma Array_sort_by_key:
  fixes f :: "'a \<Rightarrow> real"
  shows "\<forall>x \<in> set xs. \<forall>y \<in> set xs. cmp x y \<le> 0 \<longleftrightarrow> f y \<le> f x \<Longrightarrow>
   Array_sort cmp xs = sort_key (\<lambda>e. - f e) xs"
proof (induction xs)
  case Nil
  then show ?case by (simp add: Array_sort_def)
next
  case (Cons x xs)
  have ih: "Array_sort cmp xs = sort_key (\<lambda>e. - f e) xs"
    using Cons by simp
  have "\<forall>y \<in> set (sort_key (\<lambda>e. - f e) xs). cmp x y \<le> 0 \<longleftrightarrow> f y \<le> f x"
    using Cons.prems by simp
  then have "Array_insert cmp x (sort_key (\<lambda>e. - f e) xs)
               = insort_key (\<lambda>e. - f e) x (sort_key (\<lambda>e. - f e) xs)"
    by (rule Array_insert_by_key)
  then show ?case
    using ih by (simp add: Array_sort_def)
qed

lemma sorted_descending:
  fixes f :: "'a \<Rightarrow> real"
  shows "sorted_wrt (\<lambda>x y. f x \<ge> f y) (sort_key (\<lambda>e. - f e) es)"
  using sorted_sort_key [of "\<lambda>e. - f e" es] by (simp add: sorted_map)

lemma stable_descending:
  fixes f :: "'a \<Rightarrow> real"
  shows "filter (\<lambda>e. f e = v) (sort_key (\<lambda>e. - f e) es) = filter (\<lambda>e. f e = v) es"
  using sort_key_stable [of "\<lambda>e. - f e" "- v" es] by simp

lemma getLabColor_fl_value:
  "cache_ok_fl ar this \<Longrightarrow> fst (getLabColor_fl ar this c) = convertToLab_fl ar c"
  by (auto simp: getLabColor_fl_def cache_ok_fl_def Let_def split: option.splits dest!: map_of_SomeD)

lemma getLabColor_fl_cache_ok:
  "cache_ok_fl ar this \<Longrightarrow> cache_ok_fl ar (snd (getLabColor_fl ar this c))"
  using set_update_subset [of c "convertToLab_fl ar c"]
  by (fastforce simp: getLabColor_fl_def cache_ok_fl_def Let_def split: option.splits)

lemma priorities_loop_fl_value:
  "cache_ok_fl ar this \<Longrightarrow>
   fst (priorities_loop_fl ar this es) = map (\<lambda>(c, n). (c, priority_fl ar c n)) es"
proof (induction es arbitrary: this)
  case Nil
  then show ?case by simp
next
  case (Cons e es)
  obtain c n where e: "e = (c, n)" by (cases e)
  have l: "fst (getLabColor_fl ar this c) = convertToLab_fl ar c"
    using getLabColor_fl_value [OF Cons.prems] .
  have ok: "cache_ok_fl ar (snd (getLabColor_fl ar this c))"
    using getLabColor_fl_cache_ok [OF Cons.prems] .
  show ?case
    using Cons.IH [OF ok]
    by (simp add: e l Let_def case_prod_beta priority_fl_def)
qed

lemma initialize_fl_sortedColors:
  assumes "cache_ok_fl ar this"
    and "comparator_exact ar (map (\<lambda>(c, n). priority_fl ar c n) (iterator (palette this)))"
  shows "sortedColors (initialize_fl ar this)
           = Some (map fst (sort_key (\<lambda>e. - priority_fl ar (fst e) (snd e))
                              (iterator (palette this))))"
proof (cases "iterator (palette this) = []")
  case True
  then show ?thesis by (simp add: initialize_fl_def)
next
  case False
  let ?es = "iterator (palette this)"
  let ?ps = "map (\<lambda>(c, n). (c, priority_fl ar c n)) ?es"
  have "\<forall>x \<in> set ?ps. \<forall>y \<in> set ?ps. fl_sub ar (snd y) (snd x) \<le> 0 \<longleftrightarrow> snd y \<le> snd x"
    using assms(2) unfolding comparator_exact_def by (auto simp: case_prod_beta)
  then have "Array_sort (\<lambda>x y. fl_sub ar (snd y) (snd x)) ?ps = sort_key (\<lambda>e. - snd e) ?ps"
    by (rule Array_sort_by_key)
  also have "\<dots> = map (\<lambda>(c, n). (c, priority_fl ar c n))
                     (sort_key (\<lambda>e. - priority_fl ar (fst e) (snd e)) ?es)"
    by (simp add: sort_key_map case_prod_beta)
  finally have "map fst (Array_sort (\<lambda>x y. fl_sub ar (snd y) (snd x)) ?ps)
                  = map fst (sort_key (\<lambda>e. - priority_fl ar (fst e) (snd e)) ?es)"
    by (simp add: case_prod_beta comp_def)
  then show ?thesis
    using False priorities_loop_fl_value [OF assms(1), of ?es]
    by (simp add: initialize_fl_def Let_def case_prod_beta)
qed

text \<open>In the exact arithmetic the second model is the first.\<close>

lemma convertToLab_fl_exact: "convertToLab_fl exact_arithmetic c = convertToLab c"
  by (simp add: convertToLab_fl_def convertToLab_def xyzToLab_fl_def xyzToLab_def
      xyzToLabStep_fl_def xyzToLabStep_def rgbToSrgb_fl_def rgbToSrgb_def
      exact_arithmetic_def Let_def XYZ_THRESHOLD_def XYZ_FACTOR_def XYZ_OFFSET_def
      WHITE_POINT_Y_def)

lemma priority_fl_exact: "priority_fl exact_arithmetic c n = priority_reference c n"
  by (simp add: priority_fl_def priority_reference_def convertToLab_fl_exact Let_def
      power2_eq_square) (simp add: exact_arithmetic_def)

lemma getLabColor_fl_exact: "getLabColor_fl exact_arithmetic this c = getLabColor this c"
  unfolding getLabColor_fl_def getLabColor_def convertToLab_fl_exact ..

lemma priorities_loop_fl_exact:
  "priorities_loop_fl exact_arithmetic this es = priorities_loop this es"
proof (induction es arbitrary: this)
  case Nil
  then show ?case by simp
next
  case (Cons e es)
  obtain c n where e: "e = (c, n)" by (cases e)
  show ?case
    by (simp add: e getLabColor_fl_exact Cons.IH Let_def case_prod_beta)
      (simp add: exact_arithmetic_def)
qed

lemma fl_sub_exact: "fl_sub exact_arithmetic = (-)"
  by (simp add: exact_arithmetic_def)

lemma initialize_fl_exact: "initialize_fl exact_arithmetic this = initialize this"
  unfolding initialize_fl_def initialize_def priorities_loop_fl_exact fl_sub_exact ..

text \<open>
  Every arithmetic whose subtraction rounds the exact difference without changing its
  sign, and to zero only from zero, has an exact comparator.
\<close>

lemma comparator_exact_rounding:
  assumes "\<forall>d. rnd d \<le> 0 \<longleftrightarrow> d \<le> 0"
  shows "comparator_exact (ar\<lparr>fl_sub := \<lambda>x y. rnd (x - y)\<rparr>) ps"
  using assms by (simp add: comparator_exact_def)

lemma initialize_fl_empty:
  "sortedColors (initialize_fl ar (ColorExtractor_new \<lparr>colors = []\<rparr> opts)) = Some []"
  by (simp add: initialize_fl_def ColorExtractor_new_def iterator_def Array_sort_def)

lemma initialize_fl_two:
  "sortedColors (initialize_fl exact_arithmetic
     (ColorExtractor_new \<lparr>colors = [(0, 3), (2, 3)]\<rparr> DEFAULT_OPTIONS)) = Some [0, 2]"
proof -
  have "cache_ok (ColorExtractor_new \<lparr>colors = [(0, 3), (2, 3)]\<rparr> DEFAULT_OPTIONS)"
    by (simp add: cache_ok_def ColorExtractor_new_def)
  then show ?thesis
    using initialize_sortedColors [of "ColorExtractor_new \<lparr>colors = [(0, 3), (2, 3)]\<rparr> DEFAULT_OPTIONS"]
    by (simp add: initialize_fl_exact ranking_two ColorExtractor_new_def)
qed

section \<open>The most used colours\<close>

lemma getMostUsedColors_positive:
  "0 < K \<Longrightarrow>
   getMostUsedColors p (Some K)
     = take K (sort_key (\<lambda>e. - int (count e))
         (map (\<lambda>(c, n). \<lparr>color = c, count = n\<rparr>) (colors p)))"
  by (simp add: getMostUsedColors_def Array_sort_sort_key)

section \<open>The extraction orchestrator\<close>

text \<open>
  C1: for every palette, every configuration, every earlier history of calls on the
  instance and every non-negative \<open>colorCount\<close>, \<open>extract(colorCount)\<close> does not throw,
  returns at most \<open>min(colorCount, number of unique colours)\<close> colours, and every
  returned colour is a key of the palette; with \<open>colorCount = 0\<close>, or with an empty
  palette, the result is the empty sequence.
\<close>

theorem extract_bounded:
  "\<exists>res this1.
     extract colorCount (run calls (ColorExtractor_new p opts)) = (Inr res, this1) \<and>
     length res \<le> min colorCount (palette_length p) \<and>
     set res \<subseteq> fst ` set (colors p) \<and>
     (colorCount = 0 \<or> colors p = [] \<longrightarrow> res = [])"
proof -
  obtain this1 where
    e: "extract colorCount (run calls (ColorExtractor_new p opts)) = (Inr (selection p colorCount), this1)"
    using extract_after_run by blast
  have "colorCount = 0 \<or> colors p = [] \<longrightarrow> selection p colorCount = []"
    using selection_length [of p colorCount] by (auto simp: palette_length_def)
  then show ?thesis
    using e selection_length selection_set by blast
qed

theorem extract_bounded_witness:
  "(\<exists>res this1.
     extract 0 (run [Extract 2] (ColorExtractor_new \<lparr>colors = [(0xFF0000, 9)]\<rparr> DEFAULT_OPTIONS))
       = (Inr res, this1) \<and> res = []) \<and>
   (\<exists>res this1.
     extract 3 (run [] (ColorExtractor_new \<lparr>colors = []\<rparr> DEFAULT_OPTIONS))
       = (Inr res, this1) \<and> res = [])"
  using extract_bounded [of 0 "[Extract 2]" "\<lparr>colors = [(0xFF0000, 9)]\<rparr>" DEFAULT_OPTIONS]
    extract_bounded [of 3 "[]" "\<lparr>colors = []\<rparr>" DEFAULT_OPTIONS]
  by simp

text \<open>
  C7: the result of \<open>extract(k)\<close> does not depend on the conversion cache: for a fixed
  palette and a fixed \<open>k\<close> it is the same after any two histories of calls (so repeated
  calls agree, also across \<open>clearCache\<close>) and under any two configurations
  (\<open>useCache\<close> on or off, any \<open>maxCacheSize\<close>).
\<close>

theorem extract_cache_independent:
  "fst (extract k (run calls1 (ColorExtractor_new p opts1)))
     = fst (extract k (run calls2 (ColorExtractor_new p opts2)))"
  using extract_after_run [of k calls1 p opts1] extract_after_run [of k calls2 p opts2]
  by auto

theorem extract_cache_independent_witness:
  "fst (extract 2 (run [Extract 2, ClearCache, Extract 5]
          (ColorExtractor_new \<lparr>colors = [(0, 1), (1, 1)]\<rparr> DEFAULT_OPTIONS)))
     = fst (extract 2 (run []
          (ColorExtractor_new \<lparr>colors = [(0, 1), (1, 1)]\<rparr>
             \<lparr>useCache = False, maxCacheSize = 1, batchSize = 1000\<rparr>)))"
  using extract_cache_independent
    [of 2 "[Extract 2, ClearCache, Extract 5]" "\<lparr>colors = [(0, 1), (1, 1)]\<rparr>" DEFAULT_OPTIONS
      "[]" "\<lparr>useCache = False, maxCacheSize = 1, batchSize = 1000\<rparr>"]
  by simp

section \<open>The spatial merge engine\<close>

text \<open>
  C2: the invariant of the merge pass. No two accepted colours at distinct positions
  whose Lab coordinates have the same grid bucket key are at a computed distance
  (\<open>calculateDeltaE\<close>) strictly below \<open>maxDelta\<close>. It holds of the initial state, every
  step of the forward pass preserves it (and does not throw), and it holds of the
  sequence that \<open>mergeColors\<close> returns.
\<close>

theorem merge_pass_separated:
  "cache_ok this \<Longrightarrow>
   separated maxDelta (result initial_state) \<and>
   (grid_inv st \<and> separated maxDelta (result st) \<longrightarrow>
      (\<exists>st1 this1. mergeStep calculateDeltaE maxDelta c st this = (Inr st1, this1) \<and>
         cache_ok this1 \<and> grid_inv st1 \<and> separated maxDelta (result st1))) \<and>
   (\<exists>res this1. mergeColors this cs limit maxDelta = (Inr res, this1) \<and> separated maxDelta res)"
proof -
  assume ok: "cache_ok this"
  have a: "separated maxDelta (result initial_state)"
    by (simp add: initial_state_def separated_Nil)
  have b: "\<exists>st1 this1. mergeStep calculateDeltaE maxDelta c st this = (Inr st1, this1) \<and>
         cache_ok this1 \<and> grid_inv st1 \<and> separated maxDelta (result st1)"
    if "grid_inv st" "separated maxDelta (result st)"
    using mergeStep_result [OF ok that(1), of calculateDeltaE maxDelta c] that(2)
    by (auto simp: separated_append)
  have c: "\<exists>res this1. mergeColors this cs limit maxDelta = (Inr res, this1) \<and> separated maxDelta res"
    using mergeColorsWith_refine [OF ok, of calculateDeltaE cs limit maxDelta]
      select_separated [OF separated_Nil]
    unfolding mergeColors_def by blast
  show ?thesis using a b c by blast
qed

theorem merge_pass_separated_witness:
  "cache_ok (ColorExtractor_new \<lparr>colors = [(0, 1)]\<rparr> DEFAULT_OPTIONS) \<and>
   grid_inv initial_state \<and> separated 50 (result initial_state) \<and>
   (\<exists>st1 this1.
      mergeStep calculateDeltaE 50 0 initial_state
        (ColorExtractor_new \<lparr>colors = [(0, 1)]\<rparr> DEFAULT_OPTIONS) = (Inr st1, this1) \<and>
      cache_ok this1 \<and> grid_inv st1 \<and> separated 50 (result st1)) \<and>
   (\<exists>res this1.
      mergeColors (ColorExtractor_new \<lparr>colors = [(0, 1)]\<rparr> DEFAULT_OPTIONS) [0, 1] 2 50
        = (Inr res, this1) \<and> separated 50 res)"
proof -
  have ok: "cache_ok (ColorExtractor_new \<lparr>colors = [(0, 1)]\<rparr> DEFAULT_OPTIONS)"
    by (simp add: cache_ok_def ColorExtractor_new_def)
  show ?thesis
    using merge_pass_separated [OF ok, of 50 initial_state 0 "[0, 1]" 2] grid_inv_initial ok
    by blast
qed

text \<open>
  C10: within the merge pass the test \<open>|deltaL| > 50\<close> of \<open>calculateDeltaE\<close> never
  fires: two Lab colours with equal grid bucket keys have lightnesses less than 20
  apart, where \<open>calculateDeltaE\<close> is the plain Euclidean distance, and distances are
  only computed inside one bucket; so \<open>mergeColors\<close> returns the same result and the
  same instance state as its variant with the plain Euclidean distance.
\<close>

theorem mergeColors_euclidean:
  "(getGridKey lab1 gridSize = getGridKey lab2 gridSize \<longrightarrow>
      \<bar>lab_L lab2 - lab_L lab1\<bar> < 20 \<and> calculateDeltaE lab1 lab2 = euclideanDeltaE lab1 lab2) \<and>
   (cache_ok this \<longrightarrow>
      mergeColors this cs limit maxDelta = mergeColorsWith euclideanDeltaE this cs limit maxDelta)"
  using same_key_distance mergeLoop_euclidean [OF _ grid_inv_initial]
  by (simp add: mergeColors_def mergeColorsWith_def Let_def)

theorem mergeColors_euclidean_witness:
  "getGridKey \<lparr>lab_L = 1, lab_a = 2, lab_b = 3\<rparr> gridSize
     = getGridKey \<lparr>lab_L = 19, lab_a = 5, lab_b = 4\<rparr> gridSize \<and>
   \<bar>lab_L \<lparr>lab_L = 19, lab_a = 5, lab_b = 4\<rparr> - lab_L \<lparr>lab_L = 1, lab_a = 2, lab_b = 3\<rparr>\<bar> < 20 \<and>
   calculateDeltaE \<lparr>lab_L = 1, lab_a = 2, lab_b = 3\<rparr> \<lparr>lab_L = 19, lab_a = 5, lab_b = 4\<rparr>
     = euclideanDeltaE \<lparr>lab_L = 1, lab_a = 2, lab_b = 3\<rparr> \<lparr>lab_L = 19, lab_a = 5, lab_b = 4\<rparr> \<and>
   cache_ok (ColorExtractor_new \<lparr>colors = [(0, 1), (1, 1)]\<rparr> DEFAULT_OPTIONS) \<and>
   mergeColors (ColorExtractor_new \<lparr>colors = [(0, 1), (1, 1)]\<rparr> DEFAULT_OPTIONS) [0, 1] 2 50
     = mergeColorsWith euclideanDeltaE
         (ColorExtractor_new \<lparr>colors = [(0, 1), (1, 1)]\<rparr> DEFAULT_OPTIONS) [0, 1] 2 50"
proof -
  have k: "getGridKey \<lparr>lab_L = 1, lab_a = 2, lab_b = 3\<rparr> gridSize
     = getGridKey \<lparr>lab_L = 19, lab_a = 5, lab_b = 4\<rparr> gridSize"
    by (simp add: getGridKey_def gridSize_def)
  have ok: "cache_ok (ColorExtractor_new \<lparr>colors = [(0, 1), (1, 1)]\<rparr> DEFAULT_OPTIONS)"
    by (simp add: cache_ok_def ColorExtractor_new_def)
  show ?thesis
    using k ok
      mergeColors_euclidean [of "\<lparr>lab_L = 1, lab_a = 2, lab_b = 3\<rparr>"
        "\<lparr>lab_L = 19, lab_a = 5, lab_b = 4\<rparr>"
        "ColorExtractor_new \<lparr>colors = [(0, 1), (1, 1)]\<rparr> DEFAULT_OPTIONS" "[0, 1]" 2 50]
    by blast
qed

text \<open>
  C3: for every call \<open>extract(colorCount)\<close> with \<open>colorCount \<ge> 1\<close> the merge pass runs
  with the threshold \<open>maxDelta = 100 / colorCount\<close>, and its result is the selection
  of section 4.3 at that threshold. In every step of the pass the candidate is dropped
  if and only if some accepted colour of the same grid bucket is at a computed
  distance strictly below the threshold; otherwise it is appended. A candidate whose
  same-bucket accepted colours are all at a distance exactly equal to the threshold
  is appended, so both colours survive.
\<close>

theorem extract_threshold_and_drop_rule:
  assumes "extractor_inv this" "0 < colorCount"
  shows
   "extract colorCount this
      = mergeColors (if sortedColors this = None then initialize this else this)
          (ranking (palette this)) colorCount (100 / real colorCount) \<and>
    (\<exists>this1. extract colorCount this
       = (Inr (select calculateDeltaE (min (length (ranking (palette this))) colorCount)
                 (100 / real colorCount) [] (ranking (palette this))), this1)) \<and>
    (grid_inv st \<and> cache_ok this' \<longrightarrow>
       (\<exists>st1 this1.
          mergeStep calculateDeltaE (100 / real colorCount) c st this' = (Inr st1, this1) \<and>
          (result st1 = result st \<longleftrightarrow>
             (\<exists>a \<in> set (result st). same_bucket a c \<and>
                calculateDeltaE (convertToLab c) (convertToLab a) < 100 / real colorCount)) \<and>
          (result st1 \<noteq> result st \<longrightarrow> result st1 = result st @ [c]) \<and>
          ((\<forall>a \<in> set (result st). same_bucket a c \<longrightarrow>
              calculateDeltaE (convertToLab c) (convertToLab a) = 100 / real colorCount)
             \<longrightarrow> result st1 = result st @ [c])))"
proof -
  let ?ready = "if sortedColors this = None then initialize this else this"
  let ?md = "100 / real colorCount"
  have sc: "sortedColors ?ready = Some (ranking (palette this))"
    using assms(1) initialize_sortedColors by (auto simp: extractor_inv_def)
  have a: "extract colorCount this = mergeColors ?ready (ranking (palette this)) colorCount ?md"
    using assms(2) sc by (simp add: extract_def Let_def)
  have b: "\<exists>this1. extract colorCount this
       = (Inr (select calculateDeltaE (min (length (ranking (palette this))) colorCount)
                 ?md [] (ranking (palette this))), this1)"
    using extract_refine [OF assms(1), of colorCount] assms(2) by (auto simp: selection_def)
  have c: "\<exists>st1 this1.
          mergeStep calculateDeltaE ?md c st this' = (Inr st1, this1) \<and>
          (result st1 = result st \<longleftrightarrow>
             (\<exists>a \<in> set (result st). same_bucket a c \<and>
                calculateDeltaE (convertToLab c) (convertToLab a) < ?md)) \<and>
          (result st1 \<noteq> result st \<longrightarrow> result st1 = result st @ [c]) \<and>
          ((\<forall>a \<in> set (result st). same_bucket a c \<longrightarrow>
              calculateDeltaE (convertToLab c) (convertToLab a) = ?md)
             \<longrightarrow> result st1 = result st @ [c])"
    if g: "grid_inv st" and k: "cache_ok this'"
  proof -
    obtain st1 this1 where s:
      "mergeStep calculateDeltaE ?md c st this' = (Inr st1, this1)"
      "result st1 = (if merged_with calculateDeltaE ?md (result st) c then result st
                     else result st @ [c])"
      using mergeStep_result [OF k g, of calculateDeltaE ?md c] by blast
    have "(\<forall>a \<in> set (result st). same_bucket a c \<longrightarrow>
              calculateDeltaE (convertToLab c) (convertToLab a) = ?md)
          \<longrightarrow> \<not> merged_with calculateDeltaE ?md (result st) c"
      unfolding merged_with_def by fastforce
    then show ?thesis
      using s unfolding merged_with_def by auto
  qed
  show ?thesis using a b c by blast
qed

theorem extract_threshold_and_drop_rule_witness:
  "extractor_inv (ColorExtractor_new \<lparr>colors = [(0, 3), (2, 3)]\<rparr> DEFAULT_OPTIONS) \<and> (0::nat) < 3 \<and>
   grid_inv (accept initial_state 0 (convertToLab 0) (getGridKey (convertToLab 0) gridSize)) \<and>
   cache_ok (ColorExtractor_new \<lparr>colors = [(0, 3), (2, 3)]\<rparr> DEFAULT_OPTIONS) \<and>
   (\<exists>a \<in> set (result (accept initial_state 0 (convertToLab 0) (getGridKey (convertToLab 0) gridSize))).
       same_bucket a 2 \<and> calculateDeltaE (convertToLab 2) (convertToLab a) < 100 / real 3) \<and>
   (\<exists>st1 this1.
      mergeStep calculateDeltaE (100 / real 3) 2
        (accept initial_state 0 (convertToLab 0) (getGridKey (convertToLab 0) gridSize))
        (ColorExtractor_new \<lparr>colors = [(0, 3), (2, 3)]\<rparr> DEFAULT_OPTIONS) = (Inr st1, this1) \<and>
      result st1 = [0])"
proof -
  let ?ext = "ColorExtractor_new \<lparr>colors = [(0, 3), (2, 3)]\<rparr> DEFAULT_OPTIONS"
  let ?st = "accept initial_state 0 (convertToLab 0) (getGridKey (convertToLab 0) gridSize)"
  have inv: "extractor_inv ?ext" by (rule extractor_inv_new)
  have ok: "cache_ok ?ext" using inv by (simp add: extractor_inv_def)
  have g: "grid_inv ?st" by (rule grid_inv_accept [OF grid_inv_initial])
  have r: "result ?st = [0]" by (simp add: result_accept initial_state_def)
  have m: "\<exists>a \<in> set (result ?st).
       same_bucket a 2 \<and> calculateDeltaE (convertToLab 2) (convertToLab a) < 100 / real 3"
    using bucket_two distance_two by (simp add: r)
  show ?thesis
    using extract_threshold_and_drop_rule [OF inv, of 3 ?st ?ext 2] inv ok g m r
    by auto
qed

text \<open>
  C4, as stated, fails: a palette of the two colours \<open>0x000000\<close> and \<open>0x000002\<close> has
  two unique colours, and \<open>extract(3)\<close> returns one colour, since the second is merged
  into the first.
\<close>

theorem extract_fewer_than_unique:
  "fst (extract 3 (ColorExtractor_new \<lparr>colors = [(0, 3), (2, 3)]\<rparr> DEFAULT_OPTIONS)) = Inr [0] \<and>
   palette_length \<lparr>colors = [(0, 3), (2, 3)]\<rparr> = 2 \<and>
   palette_length \<lparr>colors = [(0, 3), (2, 3)]\<rparr> < 3 \<and>
   length [0::nat] \<noteq> palette_length \<lparr>colors = [(0, 3), (2, 3)]\<rparr>"
  using extract_after_run [of 3 "[]" "\<lparr>colors = [(0, 3), (2, 3)]\<rparr>" DEFAULT_OPTIONS]
  by (auto simp: selection_two palette_length_def)

text \<open>
  C4, amended: for every non-empty palette and every \<open>colorCount\<close> strictly greater
  than the number of unique colours, \<open>extract(colorCount)\<close> returns at least one and at
  most as many colours as the palette has unique colours (so never the requested
  count); it returns exactly that many if and only if no two distinct colours of the
  palette lie in the same grid bucket at a computed distance below
  \<open>100 / colorCount\<close>.
\<close>

theorem extract_beyond_unique:
  assumes "distinct (map fst (colors p))" "colors p \<noteq> []" "palette_length p < colorCount"
  shows "\<exists>res this1.
     extract colorCount (run calls (ColorExtractor_new p opts)) = (Inr res, this1) \<and>
     1 \<le> length res \<and> length res \<le> palette_length p \<and>
     (length res = palette_length p \<longleftrightarrow>
        (\<forall>a \<in> fst ` set (colors p). \<forall>c \<in> fst ` set (colors p).
           a \<noteq> c \<longrightarrow> \<not> mergeable (100 / real colorCount) a c))"
proof -
  obtain this1 where
    e: "extract colorCount (run calls (ColorExtractor_new p opts)) = (Inr (selection p colorCount), this1)"
    using extract_after_run by blast
  have r: "ranking p \<noteq> []"
    using assms(2) length_ranking [of p] by (auto simp: palette_length_def)
  have pos: "0 < min (length (ranking p)) colorCount"
    using r assms(3) by simp
  have one: "1 \<le> length (selection p colorCount)"
    using select_nonempty [OF r pos] assms(3) by (simp add: selection_def)
  have le: "length (selection p colorCount) \<le> palette_length p"
    using selection_length [of p colorCount] by simp
  show ?thesis
    using e one le selection_all_iff [OF assms(1,3)] by blast
qed

theorem extract_beyond_unique_witness:
  "distinct (map fst (colors \<lparr>colors = [(0, 3), (2, 3)]\<rparr>)) \<and>
   colors \<lparr>colors = [(0, 3), (2, 3)]\<rparr> \<noteq> [] \<and>
   palette_length \<lparr>colors = [(0, 3), (2, 3)]\<rparr> < 3 \<and>
   (\<exists>res this1.
     extract 3 (run [] (ColorExtractor_new \<lparr>colors = [(0, 3), (2, 3)]\<rparr> DEFAULT_OPTIONS))
       = (Inr res, this1) \<and>
     1 \<le> length res \<and> length res \<le> 2)"
proof -
  have h: "distinct (map fst (colors \<lparr>colors = [(0, 3), (2, 3)]\<rparr>))"
    "colors \<lparr>colors = [(0, 3), (2, 3)]\<rparr> \<noteq> []"
    "palette_length \<lparr>colors = [(0, 3), (2, 3)]\<rparr> < 3"
    by (simp_all add: palette_length_def)
  show ?thesis
    using h extract_beyond_unique [OF h, of "[]" DEFAULT_OPTIONS]
    by (auto simp: palette_length_def)
qed

section \<open>The salience ranker\<close>

text \<open>
  C6: in every arithmetic of numbers whose comparator is exact in sign on the
  priorities (that of IEEE doubles is), the priority that \<open>initialize\<close> computes for a
  palette entry \<open>(color, count)\<close> is \<open>chroma' * (1 - L * 0.005) * sqrt(count)\<close>, where
  \<open>(L, a, b)\<close> is the Lab conversion of the colour and \<open>chroma'\<close> is \<open>sqrt(a * a + b * b)\<close>
  with one in place of exactly zero, all computed in that arithmetic. The cached
  ranking lists the colours of all entries of the palette, in descending order of this
  computed priority, entries of equal priority in the order of the palette's
  iteration; an empty palette gives the empty ranking.
\<close>

theorem initialize_fl_ranking:
  assumes "cache_ok_fl ar this"
    and "comparator_exact ar (map (\<lambda>(c, n). priority_fl ar c n) (iterator (palette this)))"
  shows
   "fst (priorities_loop_fl ar this entries) = map (\<lambda>(c, n). (c, priority_fl ar c n)) entries \<and>
    (\<exists>ranked.
       sortedColors (initialize_fl ar this) = Some (map fst ranked) \<and>
       mset ranked = mset (colors (palette this)) \<and>
       sorted_wrt (\<lambda>x y. priority_fl ar (fst x) (snd x) \<ge> priority_fl ar (fst y) (snd y)) ranked \<and>
       (\<forall>v. filter (\<lambda>e. priority_fl ar (fst e) (snd e) = v) ranked
              = filter (\<lambda>e. priority_fl ar (fst e) (snd e) = v) (iterator (palette this)))) \<and>
    (colors (palette this) = [] \<longrightarrow> sortedColors (initialize_fl ar this) = Some [])"
proof -
  let ?ranked = "sort_key (\<lambda>e. - priority_fl ar (fst e) (snd e)) (iterator (palette this))"
  have s: "sortedColors (initialize_fl ar this) = Some (map fst ?ranked)"
    using initialize_fl_sortedColors [OF assms] .
  have m: "mset ?ranked = mset (colors (palette this))"
    by (simp add: mset_iterator)
  have d: "sorted_wrt (\<lambda>x y. priority_fl ar (fst x) (snd x) \<ge> priority_fl ar (fst y) (snd y)) ?ranked"
    by (rule sorted_descending)
  have t: "\<forall>v. filter (\<lambda>e. priority_fl ar (fst e) (snd e) = v) ?ranked
              = filter (\<lambda>e. priority_fl ar (fst e) (snd e) = v) (iterator (palette this))"
    by (simp add: stable_descending)
  have e: "colors (palette this) = [] \<longrightarrow> sortedColors (initialize_fl ar this) = Some []"
    using s by (simp add: iterator_sort_key)
  show ?thesis
    using priorities_loop_fl_value [OF assms(1), of entries] s m d t e by blast
qed

theorem initialize_fl_ranking_witness:
  "cache_ok_fl exact_arithmetic (ColorExtractor_new \<lparr>colors = [(0, 3), (2, 3)]\<rparr> DEFAULT_OPTIONS) \<and>
   comparator_exact exact_arithmetic
     (map (\<lambda>(c, n). priority_fl exact_arithmetic c n)
        (iterator (palette (ColorExtractor_new \<lparr>colors = [(0, 3), (2, 3)]\<rparr> DEFAULT_OPTIONS)))) \<and>
   fst (priorities_loop_fl exact_arithmetic
          (ColorExtractor_new \<lparr>colors = [(0, 3), (2, 3)]\<rparr> DEFAULT_OPTIONS) [(0, 3), (2, 3)])
     = [(0, priority_fl exact_arithmetic 0 3), (2, priority_fl exact_arithmetic 2 3)] \<and>
   (\<exists>ranked.
      sortedColors (initialize_fl exact_arithmetic
         (ColorExtractor_new \<lparr>colors = [(0, 3), (2, 3)]\<rparr> DEFAULT_OPTIONS)) = Some (map fst ranked) \<and>
      map fst ranked = [0, 2] \<and>
      mset ranked = mset [(0, 3), (2, 3)] \<and>
      sorted_wrt (\<lambda>x y. priority_fl exact_arithmetic (fst x) (snd x)
                          \<ge> priority_fl exact_arithmetic (fst y) (snd y)) ranked \<and>
      (\<forall>v. filter (\<lambda>e. priority_fl exact_arithmetic (fst e) (snd e) = v) ranked
             = filter (\<lambda>e. priority_fl exact_arithmetic (fst e) (snd e) = v)
                 (iterator \<lparr>colors = [(0, 3), (2, 3)]\<rparr>))) \<and>
   colors (palette (ColorExtractor_new \<lparr>colors = []\<rparr> DEFAULT_OPTIONS)) = [] \<and>
   sortedColors (initialize_fl exact_arithmetic (ColorExtractor_new \<lparr>colors = []\<rparr> DEFAULT_OPTIONS))
     = Some []"
proof -
  let ?ext = "ColorExtractor_new \<lparr>colors = [(0, 3), (2, 3)]\<rparr> DEFAULT_OPTIONS"
  let ?none = "ColorExtractor_new \<lparr>colors = []\<rparr> DEFAULT_OPTIONS"
  have e1: "colors (palette ?none) = []"
    by (simp add: ColorExtractor_new_def)
  have k1: "cache_ok_fl exact_arithmetic ?none"
    by (simp add: cache_ok_fl_def ColorExtractor_new_def)
  have k2: "comparator_exact exact_arithmetic
     (map (\<lambda>(c, n). priority_fl exact_arithmetic c n) (iterator (palette ?none)))"
    by (simp add: comparator_exact_def fl_sub_exact)
  have e2: "sortedColors (initialize_fl exact_arithmetic ?none) = Some []"
    using initialize_fl_ranking [OF k1 k2, of "[]"] e1 by blast
  have p: "palette ?ext = \<lparr>colors = [(0, 3), (2, 3)]\<rparr>"
    by (simp add: ColorExtractor_new_def)
  have h1: "cache_ok_fl exact_arithmetic ?ext"
    by (simp add: cache_ok_fl_def ColorExtractor_new_def)
  have h2: "comparator_exact exact_arithmetic
     (map (\<lambda>(c, n). priority_fl exact_arithmetic c n) (iterator (palette ?ext)))"
    by (simp add: comparator_exact_def fl_sub_exact)
  obtain ranked where
    r1: "fst (priorities_loop_fl exact_arithmetic ?ext [(0, 3), (2, 3)])
           = map (\<lambda>(c, n). (c, priority_fl exact_arithmetic c n)) [(0, 3), (2, 3)]"
    and r2: "sortedColors (initialize_fl exact_arithmetic ?ext) = Some (map fst ranked)"
    and r3: "mset ranked = mset (colors (palette ?ext))"
    and r4: "sorted_wrt (\<lambda>x y. priority_fl exact_arithmetic (fst x) (snd x)
                          \<ge> priority_fl exact_arithmetic (fst y) (snd y)) ranked"
    and r5: "\<forall>v. filter (\<lambda>e. priority_fl exact_arithmetic (fst e) (snd e) = v) ranked
             = filter (\<lambda>e. priority_fl exact_arithmetic (fst e) (snd e) = v)
                 (iterator (palette ?ext))"
    using initialize_fl_ranking [OF h1 h2, of "[(0, 3), (2, 3)]"] by blast
  have c1: "fst (priorities_loop_fl exact_arithmetic ?ext [(0, 3), (2, 3)])
     = [(0, priority_fl exact_arithmetic 0 3), (2, priority_fl exact_arithmetic 2 3)]"
    unfolding r1 by simp
  have c2: "map fst ranked = [0, 2]"
    using r2 initialize_fl_two by simp
  have c3: "mset ranked = mset [(0, 3), (2, 3)]"
    using r3 unfolding p by simp
  have r5': "\<forall>v. filter (\<lambda>e. priority_fl exact_arithmetic (fst e) (snd e) = v) ranked
             = filter (\<lambda>e. priority_fl exact_arithmetic (fst e) (snd e) = v)
                 (iterator \<lparr>colors = [(0, 3), (2, 3)]\<rparr>)"
    using r5 unfolding p .
  have h2': "comparator_exact exact_arithmetic
     (map (\<lambda>(c, n). priority_fl exact_arithmetic c n)
        (iterator (palette (ColorExtractor_new \<lparr>colors = [(0, 3), (2, 3)]\<rparr> DEFAULT_OPTIONS))))"
    using h2 .
  show ?thesis
    by (intro conjI exI [of _ ranked]) (rule h1 h2' c1 r2 c2 c3 r4 r5' e1 e2)+
qed

section \<open>The palette's most used colours\<close>

text \<open>
  C9: \<open>getMostUsedColors(K)\<close> is claimed to return the first \<open>K\<close> entries by descending
  count, so none for \<open>K = 0\<close>. For \<open>K = 0\<close> the code returns all entries: on a palette
  of two colours, \<open>getMostUsedColors(0)\<close> is the list of both.
\<close>

theorem getMostUsedColors_zero:
  "getMostUsedColors \<lparr>colors = [(0xFF0000, 2), (0x00FF00, 1)]\<rparr> (Some 0)
     = [\<lparr>color = 0xFF0000, count = 2\<rparr>, \<lparr>color = 0x00FF00, count = 1\<rparr>]"
  by (simp add: getMostUsedColors_def Array_sort_def)

section \<open>ImageDecoder: the raw-buffer decoder\<close>

text \<open>
  C8: \<open>ImageDecoder.fromRawData(width, height, data)\<close> raises an error exactly when the
  length of \<open>data\<close> differs from \<open>width * height * 4\<close>; when the lengths agree it returns
  the record of \<open>width\<close>, \<open>height\<close> and \<open>data\<close>, each unchanged.
\<close>

theorem fromRawData_error_iff:
  "((\<exists>e. fromRawData w h d = Inl e) \<longleftrightarrow> length d \<noteq> w * h * 4) \<and>
   (length d = w * h * 4 \<longrightarrow> fromRawData w h d = Inr \<lparr>width = w, height = h, data = d\<rparr>)"
  by (simp add: fromRawData_def RGBA_CHANNELS_def Let_def)

theorem fromRawData_error_iff_witness:
  "((\<exists>e. fromRawData 1 1 [255, 0, 0, 255] = Inl e) \<longleftrightarrow> length [255, 0, 0, 255 :: 8 word] \<noteq> 1 * 1 * 4) \<and>
   length [255, 0, 0, 255 :: 8 word] = 1 * 1 * 4 \<and>
   fromRawData 1 1 [255, 0, 0, 255] = Inr \<lparr>width = 1, height = 1, data = [255, 0, 0, 255]\<rparr>"
  using fromRawData_error_iff [of 1 1 "[255, 0, 0, 255]"] by simp

text \<open>
  C5: for every packed colour \<open>c\<close> in \<open>[0, 0xFFFFFF]\<close>, the conversion of \<open>c\<close> to Lab
  equals the reference pipeline: unpack the bytes and divide by 255, apply the sRGB
  transfer function, multiply by the D65 matrix, divide by the white point, apply the
  Lab nonlinearity, and combine into \<open>L\<close>, \<open>a\<close>, \<open>b\<close>.
\<close>

theorem convertToLab_reference:
  "c \<le> 0xFFFFFF \<Longrightarrow> convertToLab c = toLab_reference c"
proof -
  assume "c \<le> 0xFFFFFF"
  then have "c div 65536 < 256" by simp
  then have r: "c div 65536 mod 256 = c div 65536" by simp
  have bytes: "drop_bit 16 c AND RGB_MAX = c div 65536"
    "drop_bit 8 c AND RGB_MAX = c div 256 mod 256" "c AND RGB_MAX = c mod 256"
    using r by (simp_all add: unpack_bytes(3) drop_bit_eq_div)
  show ?thesis
    unfolding convertToLab_def bytes
    by (simp add: toLab_reference_def unpack_reference_def xyzToLab_def
        rgbToSrgb_reference xyzToLabStep_reference
        Let_def RGB_MAX_def MATRIX_X_def MATRIX_Y_def MATRIX_Z_def
        WHITE_POINT_X_def WHITE_POINT_Y_def WHITE_POINT_Z_def)
qed

theorem convertToLab_reference_witness:
  "(0::nat) \<le> 0xFFFFFF \<and> convertToLab 0 = toLab_reference 0"
  using convertToLab_reference [of 0] by simp

end
